theory Spec2Isabelle
  imports Main "HOL-Library.Multiset"
begin

section \<open>Rate limit form: the slider step table\<close>

text \<open>
  \<^verbatim>\<open>getRateLimitValues\<close> fills \<^verbatim>\<open>steps\<close> in a \<^verbatim>\<open>while (i <= 1000000)\<close> loop.
  The loop is the recursive function below: \<^verbatim>\<open>i\<close> and \<^verbatim>\<open>steps\<close> are the two
  variables of the loop, \<^verbatim>\<open>steps.push(i)\<close> appends at the end. The counter only
  takes integer values far below \<open>2 ^ 53\<close>, where JavaScript numbers are exact, so
  it is an \<open>int\<close>.
\<close>

function getRateLimitValues_loop :: "int \<Rightarrow> int list \<Rightarrow> int list" where
  "getRateLimitValues_loop i steps =
     (if i \<le> 1000000
      then getRateLimitValues_loop
             (if i < 10000 then i + 1000
              else if i < 100000 then i + 10000
              else i + 100000)
             (steps @ [i])
      else steps)"
  by pat_completeness auto
termination
  by (relation "measure (\<lambda>(i, steps). nat (1000001 - i))") auto

definition getRateLimitValues :: "int list" where
  "getRateLimitValues = getRateLimitValues_loop 0 []"

text \<open>The module-level constant: \<^verbatim>\<open>const ACCOUNT_RATE_LIMIT_VALUES = getRateLimitValues()\<close>.\<close>

definition ACCOUNT_RATE_LIMIT_VALUES :: "int list" where
  "ACCOUNT_RATE_LIMIT_VALUES = getRateLimitValues"

subsection \<open>The label formatters of the two sliders\<close>

text \<open>
  The value a slider hands to \<^verbatim>\<open>formatLabel\<close> is a number, or nothing
  (\<^verbatim>\<open>accountLimit\<close> may be unset): \<open>None\<close> stands for \<^verbatim>\<open>undefined\<close>.
  A label is a React child: a string, a node built by \<^verbatim>\<open>tct\<close>, or the
  \<^verbatim>\<open>span\<close> whose \<^verbatim>\<open>dangerouslySetInnerHTML\<close> is the given markup.
\<close>

datatype 'n label = Text string | Node 'n | SpanInnerHTML string

text \<open>\<^verbatim>\<open>!value\<close> on a number or \<^verbatim>\<open>undefined\<close>.\<close>

definition falsy :: "int option \<Rightarrow> bool" where
  "falsy value = (case value of None \<Rightarrow> True | Some v \<Rightarrow> v = 0)"

text \<open>
  The text of a template literal \<^verbatim>\<open>${value}\<close>: \<^verbatim>\<open>"undefined"\<close> for \<^verbatim>\<open>undefined\<close>, and
  for an integer its decimal digits after the sign. That is \<^verbatim>\<open>String(value)\<close> for the
  integers a number holds exactly, below \<open>2 ^ 53\<close> in absolute value; from \<open>10 ^ 21\<close>
  on JavaScript writes a number with an exponent, which is not modelled, and the
  properties below stay below \<open>2 ^ 53\<close>.
\<close>

fun digits :: "nat \<Rightarrow> string" where
  "digits n =
     (if n < 10 then [''0123456789'' ! n]
      else digits (n div 10) @ [''0123456789'' ! (n mod 10)])"

declare digits.simps [simp del]

definition String_of :: "int option \<Rightarrow> string" where
  "String_of value =
     (case value of
        None \<Rightarrow> ''undefined''
      | Some v \<Rightarrow> if v < 0 then CHR ''-'' # digits (nat (- v)) else digits (nat v))"

text \<open>
  \<^verbatim>\<open>formatLabel\<close> of the account limit. \<^verbatim>\<open>t\<close> and \<^verbatim>\<open>tct\<close> (\<^verbatim>\<open>app/locale\<close>) and the
  locale-dependent \<^verbatim>\<open>Number.prototype.toLocaleString\<close> are parameters.
\<close>

definition accountRateLimit_formatLabel ::
  "(string \<Rightarrow> string) \<Rightarrow> (string \<Rightarrow> (string \<times> string) list \<Rightarrow> 'n) \<Rightarrow> (int \<Rightarrow> string)
     \<Rightarrow> int option \<Rightarrow> 'n label" where
  "accountRateLimit_formatLabel t tct toLocaleString value =
     (if falsy value then Text (t ''No Limit'')
      else Node (tct ''[number] per hour'' [(''number'', toLocaleString (the value))]))"

text \<open>\<^verbatim>\<open>formatLabel\<close> of the per-project limit.\<close>

definition projectRateLimit_formatLabel :: "(string \<Rightarrow> string) \<Rightarrow> int option \<Rightarrow> 'n label" where
  "projectRateLimit_formatLabel t value =
     (if value \<noteq> Some 100 then Text (String_of value @ ''%'')
      else SpanInnerHTML (t ''No Limit'' @ '' &mdash; 100%''))"

text \<open>
  The labels in English. The three definitions below stand for what the parameters
  \<^verbatim>\<open>t\<close>, \<^verbatim>\<open>tct\<close> and \<^verbatim>\<open>toLocaleString\<close> are there.
\<close>

text \<open>
  Modelled from the spec: \<^verbatim>\<open>t\<close> of \<^verbatim>\<open>app/locale\<close> is not part of the sources at hand. The
  spec gives the labels by their English messages: without a translation, a message is
  returned as it is.
\<close>

definition t_untranslated :: "string \<Rightarrow> string" where
  "t_untranslated msg = msg"

text \<open>
  Modelled from the spec: \<^verbatim>\<open>tct\<close> of \<^verbatim>\<open>app/locale\<close> is not part of the sources at hand.
  The spec writes the label "<N> per hour" for the message \<^verbatim>\<open>[number] per hour\<close>: an
  argument goes in the place of its name in brackets; a bracket that names no argument
  stays.
\<close>

function tct_subst :: "string \<Rightarrow> (string \<times> string) list \<Rightarrow> string" where
  "tct_subst [] args = []"
| "tct_subst (c # cs) args =
     (if c = CHR ''[''
      then (case map_of args (takeWhile (\<lambda>x. x \<noteq> CHR '']'') cs) of
              Some v \<Rightarrow> v @ tct_subst (drop 1 (dropWhile (\<lambda>x. x \<noteq> CHR '']'') cs)) args
            | None \<Rightarrow> c # tct_subst cs args)
      else c # tct_subst cs args)"
  by pat_completeness auto
termination
  by (relation "measure (\<lambda>(s, args). length s)")
     (auto simp: less_Suc_eq_le intro: le_trans [OF diff_le_self length_dropWhile_le])

text \<open>
  Modelled from the spec: \<^verbatim>\<open>toLocaleString\<close> depends on the locale of the browser. The
  spec has the number "with thousands separators": the digits in groups of three from
  the right, a comma between two groups.
\<close>

fun group3 :: "string \<Rightarrow> string" where
  "group3 ds =
     (if length ds \<le> 3 then ds
      else group3 (take (length ds - 3) ds) @ CHR '','' # drop (length ds - 3) ds)"

declare group3.simps [simp del]

definition toLocaleString_en :: "int \<Rightarrow> string" where
  "toLocaleString_en v =
     (if v < 0 then CHR ''-'' # group3 (digits (nat (- v))) else group3 (digits (nat v)))"

section \<open>Result table controller\<close>

text \<open>
  The methods of \<^verbatim>\<open>TableView\<close> keep their names without the leading underscore, which
  a constant cannot begin with: \<^verbatim>\<open>_updateColumn\<close> is \<open>updateColumn\<close>. Numbers are
  integers: column indices and widths that are not integer-valued are outside the
  model. Functions and constants the file imports from other modules are parameters
  of the definition that uses them.
\<close>

subsection \<open>Data\<close>

text \<open>
  A field of the query view (\<^verbatim>\<open>eventView.fields[i]\<close>, \<^verbatim>\<open>column.eventViewField\<close>), what
  \<^verbatim>\<open>explodeField\<close> makes of one, and a column of the grid. Type tags and aggregations
  are the string literals the code compares them with. An optional property is an
  \<open>option\<close>: \<open>None\<close> is \<^verbatim>\<open>undefined\<close>.
\<close>

record Field =
  field :: string
  width :: int

record ExplodedField =
  aggregation :: string
  field :: string
  width :: int

record TableColumn =
  key :: string
  name :: string
  aggregation :: string
  field :: string
  width :: "int option"
  eventViewField :: Field
  type :: string
  isDragging :: "bool option"

text \<open>
  Result metadata maps an aggregate alias to a type tag; a row maps a column key to
  a cell value. Reading a missing key gives \<^verbatim>\<open>undefined\<close>.
\<close>

type_synonym MetaType = "string \<rightharpoonup> string"

type_synonym 'v TableDataRow = "string \<rightharpoonup> 'v"

record 'v TableData =
  data :: "'v TableDataRow list"
  meta :: "MetaType option"

record Organization =
  id' :: string
  slug :: string

record 'q Location =
  pathname :: string
  query :: 'q

text \<open>
  The query view is an object of a class defined elsewhere. The code reads its
  \<^verbatim>\<open>fields\<close> (here \<open>fields'\<close>) and compares two views by reference (\<^verbatim>\<open>!==\<close>): \<open>oid\<close> is the identity
  of the object, and everything else a view holds is the extension of the record.
\<close>

record EventView =
  oid :: nat
  fields' :: "Field list"

record ('q, 'm, 'v) TableViewProps =
  location :: "'q Location"
  organization :: Organization
  isLoading :: bool
  error :: "string option"
  eventView :: "'m EventView_scheme"
  tableData :: "'v TableData option"
  tagKeys :: "string list option"
  title :: string

subsection \<open>Effects of the handlers\<close>

text \<open>
  A telemetry event is a flat object: the list of its properties in the order of the
  object literal. A handler returns the calls it makes to the two sinks, in order.
\<close>

datatype jsval =
  JStr string | JNum int | JNaN | JInfinity | JMinusInfinity | JStrings "string list"

type_synonym event = "(string \<times> jsval) list"

datatype ('q, 'm, 'x) effect =
  TrackAnalyticsEvent event
| PushEventViewToLocation "'q Location" "'m EventView_scheme" 'x

text \<open>
  The Number value of a natural number: itself below \<open>2 ^ 53\<close>; from there on the
  nearest number with 53 significant bits, a tie going to the even one, and
  \<^verbatim>\<open>Infinity\<close> (\<open>None\<close>) when that is \<open>2 ^ 1024\<close>.
\<close>

fun bitLength :: "nat \<Rightarrow> nat" where
  "bitLength n = (if n = 0 then 0 else Suc (bitLength (n div 2)))"

declare bitLength.simps [simp del]

definition roundToDouble :: "nat \<Rightarrow> nat option" where
  "roundToDouble n =
     (if n < 9007199254740992 then Some n
      else (let k = bitLength n - 53;
                q = n div 2 ^ k;
                r = n mod 2 ^ k;
                q' = (if 2 ^ k < 2 * r \<or> (2 * r = 2 ^ k \<and> odd q) then q + 1 else q)
            in if q' * 2 ^ k < 2 ^ 1024 then Some (q' * 2 ^ k) else None))"

text \<open>
  \<^verbatim>\<open>parseInt(s, 10)\<close>: leading white space, an optional sign, then the longest run of
  decimal digits; \<^verbatim>\<open>NaN\<close> when there is no digit, and otherwise the Number value of
  the integer the digits write. (White space beyond ASCII is not modelled; past the
  20th significant digit the language lets an implementation read a digit as 0,
  which is not modelled either.)
\<close>

definition isWhiteSpace :: "char \<Rightarrow> bool" where
  "isWhiteSpace c = (c \<in> set [CHR 0x09, CHR 0x0A, CHR 0x0B, CHR 0x0C, CHR 0x0D, CHR '' ''])"

definition isDigit :: "char \<Rightarrow> bool" where
  "isDigit c = (c \<in> set ''0123456789'')"

definition parseInt :: "string \<Rightarrow> jsval" where
  "parseInt s =
     (let s1 = dropWhile isWhiteSpace s;
          neg = (case s1 of c # _ \<Rightarrow> c = CHR ''-'' | [] \<Rightarrow> False);
          s2 = (case s1 of c # r \<Rightarrow> if c = CHR ''-'' \<or> c = CHR ''+'' then r else s1 | [] \<Rightarrow> s1);
          ds = takeWhile isDigit s2;
          n = foldl (\<lambda>a c. 10 * a + (of_char c - 48)) (0::nat) ds
      in if ds = [] then JNaN
         else (case roundToDouble n of
                 None \<Rightarrow> if neg then JMinusInfinity else JInfinity
               | Some m \<Rightarrow> JNum (if neg then - int m else int m)))"

text \<open>\<^verbatim>\<open>xs[i]\<close> on an array: \<^verbatim>\<open>undefined\<close> outside \<open>0 \<le> i < length\<close>.\<close>

definition index_at :: "'a list \<Rightarrow> int \<Rightarrow> 'a option" where
  "index_at xs i = (if 0 \<le> i \<and> i < int (length xs) then Some (xs ! nat i) else None)"

subsection \<open>Updating and moving a column\<close>

text \<open>
  \<^verbatim>\<open>_updateColumn\<close>. The collaborators are parameters: \<^verbatim>\<open>COL_WIDTH_UNDEFINED\<close>,
  \<^verbatim>\<open>eventView.withUpdatedColumn\<close>, \<^verbatim>\<open>explodeField\<close> and
  \<^verbatim>\<open>pickRelevantLocationQueryStrings\<close>. \<^verbatim>\<open>explodeField\<close> is handed \<^verbatim>\<open>undefined\<close> when the
  index is not a position of \<^verbatim>\<open>fields\<close>; what it does then is its own business, so
  it returns a value or throws (\<open>Inl\<close>), and a throw ends the handler before any call to
  a sink.
\<close>

definition updateColumn ::
  "int \<Rightarrow> ('m EventView_scheme \<Rightarrow> int \<Rightarrow> event \<Rightarrow> MetaType option \<Rightarrow> 'm EventView_scheme)
     \<Rightarrow> (Field option \<Rightarrow> 'e + ExplodedField) \<Rightarrow> ('q Location \<Rightarrow> 'x)
     \<Rightarrow> ('q, 'm, 'v) TableViewProps \<Rightarrow> int \<Rightarrow> TableColumn
     \<Rightarrow> 'e + ('q, 'm, 'x) effect list" where
  "updateColumn COL_WIDTH_UNDEFINED withUpdatedColumn explodeField
       pickRelevantLocationQueryStrings props columnIndex nextColumn =
     (let payload =
            [(''aggregation'', JStr (TableColumn.aggregation nextColumn)),
             (''field'', JStr (TableColumn.field nextColumn)),
             (''width'', JNum (case TableColumn.width nextColumn of
                                 None \<Rightarrow> COL_WIDTH_UNDEFINED
                               | Some w \<Rightarrow> if w \<noteq> 0 then w else COL_WIDTH_UNDEFINED))];
          tableMeta = (case tableData props of None \<Rightarrow> None | Some td \<Rightarrow> meta td);
          nextEventView = withUpdatedColumn (eventView props) columnIndex payload tableMeta;
          push = PushEventViewToLocation (location props) nextEventView
                   (pickRelevantLocationQueryStrings (location props))
      in if oid nextEventView \<noteq> oid (eventView props)
         then (case explodeField (index_at (fields' (eventView props)) columnIndex) of
                 Inl e \<Rightarrow> Inl e
               | Inr prevField \<Rightarrow>
                   (case explodeField (index_at (fields' nextEventView) columnIndex) of
                      Inl e \<Rightarrow> Inl e
                    | Inr nextField \<Rightarrow>
                        (let aggregationChanged =
                               (ExplodedField.aggregation prevField
                                  \<noteq> ExplodedField.aggregation nextField);
                             fieldChanged =
                               (ExplodedField.field prevField \<noteq> ExplodedField.field nextField);
                             widthChanged =
                               (ExplodedField.width prevField \<noteq> ExplodedField.width nextField);
                             changed =
                               (if aggregationChanged then [''aggregate''] else [])
                               @ (if fieldChanged then [''field''] else [])
                               @ (if widthChanged then [''width''] else [])
                         in Inr [TrackAnalyticsEvent
                                   ([(''eventKey'', JStr ''discover_v2.update_column''),
                                     (''eventName'', JStr ''Discoverv2: A column was updated''),
                                     (''updated_at_index'', JNum columnIndex),
                                     (''changed'', JStrings changed),
                                     (''organization_id'', parseInt (id' (organization props)))]
                                    @ payload),
                                 push])))
         else Inr [push])"

text \<open>\<^verbatim>\<open>_moveColumnCommit\<close>, with \<^verbatim>\<open>eventView.withMovedColumn\<close> a parameter.\<close>

definition moveColumnCommit ::
  "('m EventView_scheme \<Rightarrow> int \<Rightarrow> int \<Rightarrow> 'm EventView_scheme)
     \<Rightarrow> (Field option \<Rightarrow> 'e + ExplodedField) \<Rightarrow> ('q Location \<Rightarrow> 'x)
     \<Rightarrow> ('q, 'm, 'v) TableViewProps \<Rightarrow> int \<Rightarrow> int
     \<Rightarrow> 'e + ('q, 'm, 'x) effect list" where
  "moveColumnCommit withMovedColumn explodeField pickRelevantLocationQueryStrings
       props fromIndex toIndex =
     (case explodeField (index_at (fields' (eventView props)) fromIndex) of
        Inl e \<Rightarrow> Inl e
      | Inr prevField \<Rightarrow>
          (let nextEventView = withMovedColumn (eventView props) fromIndex toIndex
           in Inr [TrackAnalyticsEvent
                     [(''eventKey'', JStr ''discover_v2.move_column''),
                      (''eventName'', JStr ''Discoverv2: A column was moved''),
                      (''from_index'', JNum fromIndex),
                      (''to_index'', JNum toIndex),
                      (''organization_id'', parseInt (id' (organization props))),
                      (''aggregation'', JStr (ExplodedField.aggregation prevField)),
                      (''field'', JStr (ExplodedField.field prevField))],
                   PushEventViewToLocation (location props) nextEventView
                     (pickRelevantLocationQueryStrings (location props))]))"

text \<open>
  The \<^verbatim>\<open>onDragDone\<close> callback that \<^verbatim>\<open>render\<close> hands to \<^verbatim>\<open>DraggableColumns\<close>. An index
  is a number or \<^verbatim>\<open>undefined\<close>: \<^verbatim>\<open>typeof x === 'number'\<close> is \<open>x \<noteq> None\<close>.
\<close>

definition onDragDone ::
  "('m EventView_scheme \<Rightarrow> int \<Rightarrow> int \<Rightarrow> 'm EventView_scheme)
     \<Rightarrow> (Field option \<Rightarrow> 'e + ExplodedField) \<Rightarrow> ('q Location \<Rightarrow> 'x)
     \<Rightarrow> ('q, 'm, 'v) TableViewProps \<Rightarrow> int option \<Rightarrow> int option
     \<Rightarrow> 'e + ('q, 'm, 'x) effect list" where
  "onDragDone withMovedColumn explodeField pickRelevantLocationQueryStrings
       props draggingColumnIndex destinationColumnIndex =
     (case draggingColumnIndex of
        None \<Rightarrow> Inr []
      | Some dragging \<Rightarrow>
          (case destinationColumnIndex of
             None \<Rightarrow> Inr []
           | Some destination \<Rightarrow>
               if dragging \<noteq> destination
               then moveColumnCommit withMovedColumn explodeField
                      pickRelevantLocationQueryStrings props dragging destination
               else Inr []))"

subsection \<open>Rendering a header cell\<close>

datatype Alignments = AlignLeft | AlignRight

text \<open>The \<^verbatim>\<open>SortLink\<close> element a header cell is, with its five properties.\<close>

datatype ('q, 'm) element =
  SortLink (align: Alignments) Field "'q Location" "'m EventView_scheme" "MetaType option"

text \<open>\<^verbatim>\<open>_renderGridHeaderCell\<close>, with \<^verbatim>\<open>getAggregateAlias\<close> a parameter.\<close>

definition renderGridHeaderCell ::
  "(string \<Rightarrow> string) \<Rightarrow> ('q, 'm, 'v) TableViewProps \<Rightarrow> TableColumn \<Rightarrow> ('q, 'm) element" where
  "renderGridHeaderCell getAggregateAlias props column =
     (let field = eventViewField column;
          alignedTypes = [''number'', ''duration'', ''integer''];
          align0 = (if type column \<in> set alignedTypes then AlignRight else AlignLeft);
          tableMeta = (case tableData props of None \<Rightarrow> None | Some td \<Rightarrow> meta td);
          align1 =
            (if type column = ''never'' \<or> type column = ''*''
             then (let maybeType =
                         (case tableMeta of
                            None \<Rightarrow> None
                          | Some m \<Rightarrow> m (getAggregateAlias (Field.field field)))
                   in if maybeType = Some ''integer'' \<or> maybeType = Some ''number''
                      then AlignRight else align0)
             else align0)
      in SortLink align1 field (location props) (eventView props) tableMeta)"

subsection \<open>Rendering a body cell\<close>

text \<open>
  What a body cell renders to: the raw value of the row (\<^verbatim>\<open>undefined\<close> for a key the
  row lacks), the content a field renderer returns, a \<^verbatim>\<open>BaseLink\<close> to a target around
  a child, or a \<^verbatim>\<open>React.Fragment\<close> around a child. A link target has the shape of a
  location: a path name and a query.
\<close>

datatype ('v, 'r, 'g) node =
  RawValue "'v option"
| FieldContent 'r
| BaseLink "'g Location" "('v, 'r, 'g) node"
| Fragment "('v, 'r, 'g) node"

datatype 'e failure = AssertionFailed | Thrown 'e

text \<open>
  Modelled from the spec: \<^verbatim>\<open>assert\<close> of \<^verbatim>\<open>app/types/utils\<close> is not part of the sources
  at hand. The spec calls it a programmer-error guard that the result metadata is
  present: it fails on \<^verbatim>\<open>undefined\<close> and lets a present value through.
\<close>

definition assert :: "'a option \<Rightarrow> 'e failure + 'a" where
  "assert x = (case x of None \<Rightarrow> Inl AssertionFailed | Some v \<Rightarrow> Inr v)"

text \<open>
  The function component \<^verbatim>\<open>ExpandAggregateRow\<close>: its properties are the arguments,
  \<^verbatim>\<open>children\<close> the render function it is given (\<open>eventView'\<close> and \<open>location'\<close> are
  its properties \<^verbatim>\<open>eventView\<close> and \<^verbatim>\<open>location\<close>). \<^verbatim>\<open>explodeField\<close>,
  \<^verbatim>\<open>getExpandedResults\<close> (called with the empty filter \<^verbatim>\<open>{}\<close>) and the view's
  \<^verbatim>\<open>generateQueryStringObject\<close> are parameters.
\<close>

definition ExpandAggregateRow ::
  "(Field option \<Rightarrow> 'e + ExplodedField)
     \<Rightarrow> ('m EventView_scheme \<Rightarrow> 'v TableDataRow \<Rightarrow> 'm EventView_scheme)
     \<Rightarrow> ('m EventView_scheme \<Rightarrow> 'g)
     \<Rightarrow> (bool \<Rightarrow> 'e failure + ('v, 'r, 'g) node)
     \<Rightarrow> 'm EventView_scheme \<Rightarrow> TableColumn \<Rightarrow> 'v TableDataRow \<Rightarrow> 'q Location \<Rightarrow> MetaType
     \<Rightarrow> 'e failure + ('v, 'r, 'g) node" where
  "ExpandAggregateRow explodeField getExpandedResults generateQueryStringObject
       children eventView' column dataRow location' tableMeta =
     (case explodeField (Some (eventViewField column)) of
        Inl e \<Rightarrow> Inl (Thrown e)
      | Inr exploded \<Rightarrow>
          if ExplodedField.aggregation exploded = ''count''
          then (let nextView = getExpandedResults eventView' dataRow;
                    target = \<lparr>pathname = pathname location',
                              query = generateQueryStringObject nextView\<rparr>
                in (case children True of
                      Inl e \<Rightarrow> Inl e
                    | Inr content \<Rightarrow> Inr (BaseLink target content)))
          else (case children False of
                  Inl e \<Rightarrow> Inl e
                | Inr content \<Rightarrow> Inr (Fragment content)))"

text \<open>
  The render function \<^verbatim>\<open>_renderGridBodyCell\<close> passes as \<^verbatim>\<open>children\<close>, with its two
  branches as the source writes them. \<^verbatim>\<open>getFieldRenderer\<close> is a parameter; the
  renderer it returns takes the row and \<^verbatim>\<open>{organization, location}\<close>.
\<close>

definition bodyCellChildren ::
  "(string \<Rightarrow> MetaType \<Rightarrow> 'v TableDataRow \<Rightarrow> Organization \<times> 'q Location \<Rightarrow> 'r)
     \<Rightarrow> ('q, 'm, 'v) TableViewProps \<Rightarrow> 'v TableData \<Rightarrow> TableColumn \<Rightarrow> 'v TableDataRow
     \<Rightarrow> bool \<Rightarrow> 'e failure + ('v, 'r, 'g) node" where
  "bodyCellChildren getFieldRenderer props td column dataRow willExpand =
     (case assert (meta td) of
        Inl e \<Rightarrow> Inl e
      | Inr tableMeta \<Rightarrow>
          if \<not> willExpand
          then (let fieldRenderer = getFieldRenderer (key column) tableMeta
                in Inr (FieldContent (fieldRenderer dataRow (organization props, location props))))
          else (let fieldRenderer = getFieldRenderer (key column) tableMeta
                in Inr (FieldContent (fieldRenderer dataRow (organization props, location props)))))"

text \<open>
  \<^verbatim>\<open>_renderGridBodyCell\<close>. The element \<^verbatim>\<open><ExpandAggregateRow ...>\<close> it returns is
  taken with what the component renders it to.
\<close>

definition renderGridBodyCell ::
  "(Field option \<Rightarrow> 'e + ExplodedField)
     \<Rightarrow> (string \<Rightarrow> MetaType \<Rightarrow> 'v TableDataRow \<Rightarrow> Organization \<times> 'q Location \<Rightarrow> 'r)
     \<Rightarrow> ('m EventView_scheme \<Rightarrow> 'v TableDataRow \<Rightarrow> 'm EventView_scheme)
     \<Rightarrow> ('m EventView_scheme \<Rightarrow> 'g)
     \<Rightarrow> ('q, 'm, 'v) TableViewProps \<Rightarrow> TableColumn \<Rightarrow> 'v TableDataRow
     \<Rightarrow> 'e failure + ('v, 'r, 'g) node" where
  "renderGridBodyCell explodeField getFieldRenderer getExpandedResults
       generateQueryStringObject props column dataRow =
     (case tableData props of
        None \<Rightarrow> Inr (RawValue (dataRow (key column)))
      | Some td \<Rightarrow>
          (case meta td of
             None \<Rightarrow> Inr (RawValue (dataRow (key column)))
           | Some tableMeta \<Rightarrow>
               ExpandAggregateRow explodeField getExpandedResults generateQueryStringObject
                 (bodyCellChildren getFieldRenderer props td column dataRow)
                 (eventView props) column dataRow (location props) tableMeta))"

text \<open>
  The same cell as the spec's design note words it: the content is computed once,
  "should link" is decided, and the content is wrapped or not.
\<close>

definition renderGridBodyCell_single ::
  "(Field option \<Rightarrow> 'e + ExplodedField)
     \<Rightarrow> (string \<Rightarrow> MetaType \<Rightarrow> 'v TableDataRow \<Rightarrow> Organization \<times> 'q Location \<Rightarrow> 'r)
     \<Rightarrow> ('m EventView_scheme \<Rightarrow> 'v TableDataRow \<Rightarrow> 'm EventView_scheme)
     \<Rightarrow> ('m EventView_scheme \<Rightarrow> 'g)
     \<Rightarrow> ('q, 'm, 'v) TableViewProps \<Rightarrow> TableColumn \<Rightarrow> 'v TableDataRow
     \<Rightarrow> 'e failure + ('v, 'r, 'g) node" where
  "renderGridBodyCell_single explodeField getFieldRenderer getExpandedResults
       generateQueryStringObject props column dataRow =
     (case (case tableData props of None \<Rightarrow> None | Some td \<Rightarrow> meta td) of
        None \<Rightarrow> Inr (RawValue (dataRow (key column)))
      | Some tableMeta \<Rightarrow>
          (case explodeField (Some (eventViewField column)) of
             Inl e \<Rightarrow> Inl (Thrown e)
           | Inr exploded \<Rightarrow>
               (let content = FieldContent (getFieldRenderer (key column) tableMeta dataRow
                                              (organization props, location props));
                    shouldLink = (ExplodedField.aggregation exploded = ''count'')
                in if shouldLink
                   then Inr (BaseLink
                               \<lparr>pathname = pathname (location props),
                                query = generateQueryStringObject
                                          (getExpandedResults (eventView props) dataRow)\<rparr>
                               content)
                   else Inr (Fragment content))))"

subsection \<open>The column order shown during a drag\<close>

text \<open>
  What a position of a column array holds at run time: a column, \<^verbatim>\<open>undefined\<close> (also
  read from an empty position), or the object \<^verbatim>\<open>{isDragging: true}\<close> that spreading
  \<^verbatim>\<open>undefined\<close> leaves.
\<close>

datatype slot = Undefined | Column TableColumn | OnlyDragging

text \<open>The object literal \<^verbatim>\<open>{...x, isDragging: true}\<close>.\<close>

fun withDragging :: "slot \<Rightarrow> slot" where
  "withDragging Undefined = OnlyDragging"
| "withDragging (Column c) = Column (c\<lparr>isDragging := Some True\<rparr>)"
| "withDragging OnlyDragging = OnlyDragging"

text \<open>
  Arrays are objects with identity: the store is the list of all arrays, a reference
  is a position in it, and a new array goes at the end.
\<close>

type_synonym ref = nat

type_synonym store = "slot list list"

definition alloc :: "store \<Rightarrow> slot list \<Rightarrow> ref \<times> store" where
  "alloc h xs = (length h, h @ [xs])"

text \<open>
  \<^verbatim>\<open>xs[i]\<close> read from a column array, and the assignment \<^verbatim>\<open>xs[i] = v\<close>: inside the array
  it replaces the element, from the length on it extends the array over empty
  positions, and an index that is no array index (negative, or from \<open>2 ^ 32 - 1\<close> on)
  names an ordinary property of the array object and leaves its elements as they are.
\<close>

definition array_get :: "slot list \<Rightarrow> int \<Rightarrow> slot" where
  "array_get xs i = (case index_at xs i of None \<Rightarrow> Undefined | Some v \<Rightarrow> v)"

definition array_set :: "slot list \<Rightarrow> int \<Rightarrow> slot \<Rightarrow> slot list" where
  "array_set xs i v =
     (if i < 0 \<or> 4294967295 \<le> i then xs
      else if i < int (length xs) then xs[nat i := v]
      else xs @ replicate (nat i - length xs) Undefined @ [v])"

text \<open>
  \<^verbatim>\<open>xs.splice(start, deleteCount, ...items)\<close>: a negative start counts from the end,
  the start is clamped to the array and the count to what is left. The result is the
  array of the removed elements and the new contents of \<^verbatim>\<open>xs\<close>.
\<close>

definition splice :: "'a list \<Rightarrow> int \<Rightarrow> int \<Rightarrow> 'a list \<Rightarrow> 'a list \<times> 'a list" where
  "splice xs start deleteCount items =
     (let len = int (length xs);
          actualStart = (if start < 0 then max (len + start) 0 else min start len);
          actualDeleteCount = min (max deleteCount 0) (len - actualStart)
      in (take (nat actualDeleteCount) (drop (nat actualStart) xs),
          take (nat actualStart) xs @ items
            @ drop (nat (actualStart + actualDeleteCount)) xs))"

text \<open>
  \<^verbatim>\<open>generateColumnOrder\<close>. \<open>columnOrder\<close> is the reference \<^verbatim>\<open>eventView.getColumns()\<close>
  returned, in the store \<open>h\<close>; the result is the reference returned and the store
  afterwards. \<^verbatim>\<open>[...columnOrder]\<close> allocates the copy; the inner \<^verbatim>\<open>splice\<close> is an
  argument of the outer one and runs first.
\<close>

definition generateColumnOrder ::
  "store \<Rightarrow> ref \<Rightarrow> int option \<Rightarrow> int option \<Rightarrow> ref \<times> store" where
  "generateColumnOrder h columnOrder initialColumnIndex destinationColumnIndex =
     (case destinationColumnIndex of
        None \<Rightarrow> (columnOrder, h)
      | Some destination \<Rightarrow>
          (case initialColumnIndex of
             None \<Rightarrow> (columnOrder, h)
           | Some initial \<Rightarrow>
               if destination = initial
               then (let currentDraggingColumn =
                           withDragging (array_get (h ! columnOrder) destination)
                     in (columnOrder,
                         h[columnOrder :=
                             array_set (h ! columnOrder) destination currentDraggingColumn]))
               else (let (nextColumnOrder, h1) = alloc h (h ! columnOrder);
                         (removed, xs1) = splice (h1 ! nextColumnOrder) initial 1 [];
                         (removed', xs2) = splice xs1 destination 0 [array_get removed 0];
                         currentDraggingColumn = withDragging (array_get xs2 destination)
                     in (nextColumnOrder,
                         h1[nextColumnOrder :=
                              array_set xs2 destination currentDraggingColumn]))))"

text \<open>
  The method as \<^verbatim>\<open>render\<close> calls it, from its first line: \<^verbatim>\<open>eventView.getColumns()\<close> is
  a parameter, a function of the store and the view that returns a reference and the
  store after the call. Whether it hands out an array that exists already or a new one
  is up to the parameter.
\<close>

definition generateColumnOrder_props ::
  "(store \<Rightarrow> 'm EventView_scheme \<Rightarrow> ref \<times> store) \<Rightarrow> store \<Rightarrow> ('q, 'm, 'v) TableViewProps
     \<Rightarrow> int option \<Rightarrow> int option \<Rightarrow> ref \<times> store" where
  "generateColumnOrder_props getColumns h props initialColumnIndex destinationColumnIndex =
     (let (columnOrder, h0) = getColumns h (eventView props)
      in generateColumnOrder h0 columnOrder initialColumnIndex destinationColumnIndex)"

section \<open>Properties of the step table\<close>

lemma getRateLimitValues_eq:
  "getRateLimitValues =
     [0, 1000, 2000, 3000, 4000, 5000, 6000, 7000, 8000, 9000,
      10000, 20000, 30000, 40000, 50000, 60000, 70000, 80000, 90000,
      100000, 200000, 300000, 400000, 500000, 600000, 700000, 800000, 900000, 1000000]"
  unfolding getRateLimitValues_def by simp

text \<open>
  Claim C2. The step table the form is built with is exactly
  0, 1000, ..., 9000, 10000, 20000, ..., 90000, 100000, 200000, ..., 1000000:
  stride 1000 below 10000, stride 10000 below 100000, stride 100000 from there on;
  it is strictly ascending, starts with 0 and ends with 1000000. The table is the
  closed constant \<open>ACCOUNT_RATE_LIMIT_VALUES\<close>, the one value every form shares.
\<close>

theorem rate_limit_step_table:
  "ACCOUNT_RATE_LIMIT_VALUES =
     map (\<lambda>k. 1000 * int k) [0..<10] @ map (\<lambda>k. 10000 * int k) [1..<10]
       @ map (\<lambda>k. 100000 * int k) [1..<11]
   \<and> ACCOUNT_RATE_LIMIT_VALUES = getRateLimitValues
   \<and> sorted_wrt (<) ACCOUNT_RATE_LIMIT_VALUES
   \<and> hd ACCOUNT_RATE_LIMIT_VALUES = 0
   \<and> last ACCOUNT_RATE_LIMIT_VALUES = 1000000
   \<and> length ACCOUNT_RATE_LIMIT_VALUES = 29"
  unfolding ACCOUNT_RATE_LIMIT_VALUES_def getRateLimitValues_eq
  by (simp add: upt_rec)

section \<open>Properties of the drag preview\<close>

subsection \<open>The array primitives inside their range\<close>

lemma splice_remove:
  "i < length xs \<Longrightarrow> splice xs (int i) 1 [] = ([xs ! i], take i xs @ drop (Suc i) xs)"
  by (auto simp: splice_def Let_def min_def max_def take_Suc_conv_app_nth drop_Suc
      nat_add_distrib intro: nth_equalityI)

lemma splice_insert:
  "d \<le> length xs \<Longrightarrow> splice xs (int d) 0 [x] = ([], take d xs @ [x] @ drop d xs)"
  by (auto simp: splice_def Let_def min_def max_def)

lemma array_get_in: "i < length xs \<Longrightarrow> array_get xs (int i) = xs ! i"
  by (simp add: array_get_def index_at_def)

lemma array_set_in:
  "i < length xs \<Longrightarrow> length xs \<le> 4294967295 \<Longrightarrow> array_set xs (int i) v = xs[i := v]"
  by (simp add: array_set_def)

lemma flag_inserted:
  assumes "d \<le> length rest" "length rest < 4294967295"
  shows "array_set (take d rest @ [x] @ drop d rest) (int d)
           (withDragging (array_get (take d rest @ [x] @ drop d rest) (int d)))
         = take d rest @ [withDragging x] @ drop d rest"
proof -
  let ?xs = "take d rest @ [x] @ drop d rest"
  have l: "length ?xs = Suc (length rest)" using assms(1) by simp
  have g: "array_get ?xs (int d) = x"
    using assms(1) l by (simp add: array_get_in nth_append)
  have "array_set ?xs (int d) v = ?xs[d := v]" for v
    using assms l by (intro array_set_in) simp_all
  then show ?thesis
    using assms(1) g by (simp add: list_update_append)
qed

subsection \<open>The two branches on positions of the array\<close>

lemma generateColumnOrder_differ:
  assumes "i < length (h ! a)" "d < length (h ! a)" "i \<noteq> d" "length (h ! a) \<le> 4294967295"
  shows "generateColumnOrder h a (Some (int i)) (Some (int d)) =
           (length h,
            h @ [take d (take i (h ! a) @ drop (Suc i) (h ! a)) @ [withDragging (h ! a ! i)]
                   @ drop d (take i (h ! a) @ drop (Suc i) (h ! a))])"
proof -
  define rest where "rest = take i (h ! a) @ drop (Suc i) (h ! a)"
  have len: "Suc (length rest) = length (h ! a)" using assms(1) by (simp add: rest_def)
  have d: "d \<le> length rest" using assms(2) len by simp
  have lt: "length rest < 4294967295" using assms(4) len by simp
  have 1: "splice (h ! a) (int i) 1 [] = ([h ! a ! i], rest)"
    using assms(1) by (simp add: splice_remove rest_def)
  have 2: "splice rest (int d) 0 [h ! a ! i] = ([], take d rest @ [h ! a ! i] @ drop d rest)"
    using d by (rule splice_insert)
  have 0: "array_get [h ! a ! i] 0 = h ! a ! i"
    by (simp add: array_get_def index_at_def)
  show ?thesis
    unfolding generateColumnOrder_def alloc_def rest_def [symmetric]
    using assms(3) flag_inserted [OF d lt, of "h ! a ! i"]
    by (simp add: 1 2 0 del: append_assoc append.simps)
qed

lemma generateColumnOrder_equal:
  assumes "a < length h" "d < length (h ! a)" "length (h ! a) \<le> 4294967295"
  shows "generateColumnOrder h a (Some (int d)) (Some (int d)) =
           (a, h[a := (h ! a)[d := withDragging (h ! a ! d)]])"
  using assms by (simp add: generateColumnOrder_def array_get_in array_set_in)

text \<open>
  Claim C1, amended. Let the base array be a JavaScript array (at most \<open>2 ^ 32 - 1\<close>
  elements) and let source \<open>i\<close> and destination \<open>d\<close> both be positions of it,
  \<open>i \<noteq> d\<close>. Then \<open>generateColumnOrder\<close> returns a new array of the same length; at
  \<open>d\<close> it holds the element that was at \<open>i\<close>, flagged as dragging; without position
  \<open>d\<close> it is the base array without position \<open>i\<close>, so all other elements keep their
  relative order; and with the flag taken back it is a permutation of the base array.
  (For an index that is no position of the array the claim fails, see the
  counterexample below.)
\<close>

theorem generateColumnOrder_relocates:
  assumes "columnOrder < length h"
    and "length (h ! columnOrder) \<le> 4294967295"
    and "i < length (h ! columnOrder)" and "d < length (h ! columnOrder)" and "i \<noteq> d"
    and "generateColumnOrder h columnOrder (Some (int i)) (Some (int d)) = (r, h')"
  shows "r = length h \<and> r \<noteq> columnOrder \<and> h' = h @ [h' ! r]
       \<and> length (h' ! r) = length (h ! columnOrder)
       \<and> h' ! r ! d = withDragging (h ! columnOrder ! i)
       \<and> (\<forall>c. h ! columnOrder ! i = Column c
              \<longrightarrow> h' ! r ! d = Column (c\<lparr>isDragging := Some True\<rparr>))
       \<and> take d (h' ! r) @ drop (Suc d) (h' ! r)
           = take i (h ! columnOrder) @ drop (Suc i) (h ! columnOrder)
       \<and> mset ((h' ! r)[d := h ! columnOrder ! i]) = mset (h ! columnOrder)"
proof -
  define base where "base = h ! columnOrder"
  define rest where "rest = take i base @ drop (Suc i) base"
  have len: "Suc (length rest) = length base"
    using assms(3) by (simp add: rest_def base_def)
  have d: "d \<le> length rest" using assms(4) len by (simp add: base_def)
  have "(r, h') = (length h, h @ [take d rest @ [withDragging (base ! i)] @ drop d rest])"
    using generateColumnOrder_differ [OF assms(3,4,5,2)] assms(6)
    by (simp add: rest_def base_def)
  then have r: "r = length h"
    and h': "h' = h @ [take d rest @ [withDragging (base ! i)] @ drop d rest]"
    by simp_all
  then have new: "h' ! r = take d rest @ [withDragging (base ! i)] @ drop d rest"
    by simp
  have 0: "h' = h @ [h' ! r]" using h' new by simp
  have 1: "r \<noteq> columnOrder" using r assms(1) by simp
  have 2: "length (h' ! r) = length base" using new d len by simp
  have 3: "h' ! r ! d = withDragging (base ! i)" using new d by (simp add: nth_append)
  have 5: "take d (h' ! r) @ drop (Suc d) (h' ! r) = rest"
    using new d by simp
  have "(h' ! r)[d := base ! i] = take d rest @ [base ! i] @ drop d rest"
    using new d by (simp add: list_update_append)
  then have "mset ((h' ! r)[d := base ! i])
      = add_mset (base ! i) (mset (take d rest) + mset (drop d rest))"
    by simp
  also have "mset (take d rest) + mset (drop d rest) = mset rest"
    by (metis append_take_drop_id mset_append)
  also have "add_mset (base ! i) (mset rest) = mset base"
  proof -
    have "base = take i base @ [base ! i] @ drop (Suc i) base"
      using assms(3) by (simp add: base_def id_take_nth_drop [symmetric])
    then have "mset base = mset (take i base @ [base ! i] @ drop (Suc i) base)" by simp
    then show ?thesis by (simp add: rest_def)
  qed
  finally have 6: "mset ((h' ! r)[d := base ! i]) = mset base" .
  show ?thesis using r 0 1 2 3 5 6 by (simp add: base_def rest_def)
qed

text \<open>Three columns, the first dragged to the last position.\<close>

theorem generateColumnOrder_relocates_witness:
  "let a = Column
       \<lparr>key = ''id'', name = ''id'', TableColumn.aggregation = '''',
         TableColumn.field = ''id'', TableColumn.width = None,
         eventViewField = \<lparr>Field.field = ''id'', Field.width = 300\<rparr>,
         type = ''string'', isDragging = None\<rparr>;
       b = Column
       \<lparr>key = ''title'', name = ''title'', TableColumn.aggregation = '''',
         TableColumn.field = ''title'', TableColumn.width = None,
         eventViewField = \<lparr>Field.field = ''title'', Field.width = 300\<rparr>,
         type = ''string'', isDragging = None\<rparr>;
       c = Column
       \<lparr>key = ''count()'', name = ''count()'', TableColumn.aggregation = ''count'',
         TableColumn.field = ''count()'', TableColumn.width = None,
         eventViewField = \<lparr>Field.field = ''count()'', Field.width = 300\<rparr>,
         type = ''integer'', isDragging = None\<rparr>
   in generateColumnOrder [[a, b, c]] 0 (Some 0) (Some 2)
        = (1, [[a, b, c], [b, c, withDragging a]])
    \<and> (1::nat) \<noteq> 0
    \<and> length [b, c, withDragging a] = length [a, b, c]
    \<and> [b, c, withDragging a] ! 2 = withDragging ([a, b, c] ! 0)
    \<and> mset ([b, c, withDragging a][2 := a]) = mset [a, b, c]"
proof -
  define a where "a = Column
       \<lparr>key = ''id'', name = ''id'', TableColumn.aggregation = '''',
         TableColumn.field = ''id'', TableColumn.width = None,
         eventViewField = \<lparr>Field.field = ''id'', Field.width = 300\<rparr>,
         type = ''string'', isDragging = None\<rparr>"
  define b where "b = Column
       \<lparr>key = ''title'', name = ''title'', TableColumn.aggregation = '''',
         TableColumn.field = ''title'', TableColumn.width = None,
         eventViewField = \<lparr>Field.field = ''title'', Field.width = 300\<rparr>,
         type = ''string'', isDragging = None\<rparr>"
  define c where "c = Column
       \<lparr>key = ''count()'', name = ''count()'', TableColumn.aggregation = ''count'',
         TableColumn.field = ''count()'', TableColumn.width = None,
         eventViewField = \<lparr>Field.field = ''count()'', Field.width = 300\<rparr>,
         type = ''integer'', isDragging = None\<rparr>"
  have run: "generateColumnOrder [[a, b, c]] 0 (Some (int 0)) (Some (int 2))
      = (1, [[a, b, c], [b, c, withDragging a]])"
    by (simp add: generateColumnOrder_def alloc_def splice_def array_get_def array_set_def
        index_at_def)
  show ?thesis
    using generateColumnOrder_relocates [OF _ _ _ _ _ run] run
    by (simp add: a_def b_def c_def)
qed

text \<open>
  The claim as it is written, for every pair of present and different indices,
  fails past the end of the array: with one column, source 0 and destination 1, the
  column is put back where it was, unflagged, and the assignment at index 1 extends the
  array by the object \<^verbatim>\<open>{isDragging: true}\<close>. The result has two elements.
\<close>

theorem generateColumnOrder_past_the_end_counterexample:
  "generateColumnOrder
     [[Column
       \<lparr>key = ''id'', name = ''id'', TableColumn.aggregation = '''',
         TableColumn.field = ''id'', TableColumn.width = None,
         eventViewField = \<lparr>Field.field = ''id'', Field.width = 300\<rparr>,
         type = ''string'', isDragging = None\<rparr>]] 0 (Some 0) (Some 1)
   = (1, [[Column
       \<lparr>key = ''id'', name = ''id'', TableColumn.aggregation = '''',
         TableColumn.field = ''id'', TableColumn.width = None,
         eventViewField = \<lparr>Field.field = ''id'', Field.width = 300\<rparr>,
         type = ''string'', isDragging = None\<rparr>],
          [Column
       \<lparr>key = ''id'', name = ''id'', TableColumn.aggregation = '''',
         TableColumn.field = ''id'', TableColumn.width = None,
         eventViewField = \<lparr>Field.field = ''id'', Field.width = 300\<rparr>,
         type = ''string'', isDragging = None\<rparr>,
           OnlyDragging]])
   \<and> length [Column
       \<lparr>key = ''id'', name = ''id'', TableColumn.aggregation = '''',
         TableColumn.field = ''id'', TableColumn.width = None,
         eventViewField = \<lparr>Field.field = ''id'', Field.width = 300\<rparr>,
         type = ''string'', isDragging = None\<rparr>,
           OnlyDragging]
     \<noteq> length [Column
       \<lparr>key = ''id'', name = ''id'', TableColumn.aggregation = '''',
         TableColumn.field = ''id'', TableColumn.width = None,
         eventViewField = \<lparr>Field.field = ''id'', Field.width = 300\<rparr>,
         type = ''string'', isDragging = None\<rparr>]"
  by (simp add: generateColumnOrder_def alloc_def splice_def array_get_def array_set_def
      index_at_def)

text \<open>
  Claim C5, amended. With either index absent \<open>generateColumnOrder\<close> returns the base
  array as it is. With both present and equal to a position \<open>d\<close> of the base array
  (a JavaScript array, at most \<open>2 ^ 32 - 1\<close> elements) it returns the base array with
  the element at \<open>d\<close> flagged as dragging: same length, every other element the same,
  nothing reordered. (For equal indices past the end the length changes, see the
  counterexample below.)
\<close>

theorem generateColumnOrder_absent_or_equal:
  "generateColumnOrder h columnOrder None destinationColumnIndex = (columnOrder, h)
   \<and> generateColumnOrder h columnOrder initialColumnIndex None = (columnOrder, h)
   \<and> (columnOrder < length h \<and> length (h ! columnOrder) \<le> 4294967295
        \<and> d < length (h ! columnOrder) \<longrightarrow>
          generateColumnOrder h columnOrder (Some (int d)) (Some (int d))
          = (columnOrder,
             h[columnOrder := (h ! columnOrder)[d := withDragging (h ! columnOrder ! d)]])
        \<and> (\<forall>c. h ! columnOrder ! d = Column c \<longrightarrow>
               snd (generateColumnOrder h columnOrder (Some (int d)) (Some (int d)))
                 ! columnOrder ! d
               = Column (c\<lparr>isDragging := Some True\<rparr>)))"
proof -
  have 1: "generateColumnOrder h columnOrder None destinationColumnIndex = (columnOrder, h)"
    by (simp add: generateColumnOrder_def split: option.split)
  have 2: "generateColumnOrder h columnOrder initialColumnIndex None = (columnOrder, h)"
    by (simp add: generateColumnOrder_def)
  show ?thesis
    using 1 2 by (simp add: generateColumnOrder_equal)
qed

theorem generateColumnOrder_absent_or_equal_witness:
  "let a = Column
       \<lparr>key = ''id'', name = ''id'', TableColumn.aggregation = '''',
         TableColumn.field = ''id'', TableColumn.width = None,
         eventViewField = \<lparr>Field.field = ''id'', Field.width = 300\<rparr>,
         type = ''string'', isDragging = None\<rparr>;
       b = Column
       \<lparr>key = ''title'', name = ''title'', TableColumn.aggregation = '''',
         TableColumn.field = ''title'', TableColumn.width = None,
         eventViewField = \<lparr>Field.field = ''title'', Field.width = 300\<rparr>,
         type = ''string'', isDragging = None\<rparr>
   in generateColumnOrder [[a, b]] 0 None (Some 1) = (0, [[a, b]])
    \<and> generateColumnOrder [[a, b]] 0 (Some 1) None = (0, [[a, b]])
    \<and> generateColumnOrder [[a, b]] 0 (Some 1) (Some 1) = (0, [[a, withDragging b]])"
proof -
  define a where "a = Column
       \<lparr>key = ''id'', name = ''id'', TableColumn.aggregation = '''',
         TableColumn.field = ''id'', TableColumn.width = None,
         eventViewField = \<lparr>Field.field = ''id'', Field.width = 300\<rparr>,
         type = ''string'', isDragging = None\<rparr>"
  define b where "b = Column
       \<lparr>key = ''title'', name = ''title'', TableColumn.aggregation = '''',
         TableColumn.field = ''title'', TableColumn.width = None,
         eventViewField = \<lparr>Field.field = ''title'', Field.width = 300\<rparr>,
         type = ''string'', isDragging = None\<rparr>"
  show ?thesis
    using generateColumnOrder_absent_or_equal [of "[[a, b]]" 0 "Some 1" "Some 1" 1]
    by (simp add: a_def b_def)
qed

text \<open>
  The claim as it is written, for every pair of present and equal indices, fails past
  the end of the array: with one column and both indices 1, the assignment extends the
  base array by the object \<^verbatim>\<open>{isDragging: true}\<close>, and its length goes from 1 to 2.
\<close>

theorem generateColumnOrder_equal_past_the_end_counterexample:
  "generateColumnOrder
     [[Column
       \<lparr>key = ''id'', name = ''id'', TableColumn.aggregation = '''',
         TableColumn.field = ''id'', TableColumn.width = None,
         eventViewField = \<lparr>Field.field = ''id'', Field.width = 300\<rparr>,
         type = ''string'', isDragging = None\<rparr>]] 0 (Some 1) (Some 1)
   = (0, [[Column
       \<lparr>key = ''id'', name = ''id'', TableColumn.aggregation = '''',
         TableColumn.field = ''id'', TableColumn.width = None,
         eventViewField = \<lparr>Field.field = ''id'', Field.width = 300\<rparr>,
         type = ''string'', isDragging = None\<rparr>,
           OnlyDragging]])
   \<and> length [Column
       \<lparr>key = ''id'', name = ''id'', TableColumn.aggregation = '''',
         TableColumn.field = ''id'', TableColumn.width = None,
         eventViewField = \<lparr>Field.field = ''id'', Field.width = 300\<rparr>,
         type = ''string'', isDragging = None\<rparr>,
           OnlyDragging]
     \<noteq> length [Column
       \<lparr>key = ''id'', name = ''id'', TableColumn.aggregation = '''',
         TableColumn.field = ''id'', TableColumn.width = None,
         eventViewField = \<lparr>Field.field = ''id'', Field.width = 300\<rparr>,
         type = ''string'', isDragging = None\<rparr>]"
  by (simp add: generateColumnOrder_def array_get_def array_set_def index_at_def)

text \<open>
  Claim C10, amended. Let \<open>columnOrder\<close> be the reference, and \<open>h0\<close> the store, that
  \<^verbatim>\<open>eventView.getColumns()\<close> returns to \<open>generateColumnOrder\<close>. With equal indices the
  function returns \<open>columnOrder\<close> itself, and the store afterwards is \<open>h0\<close> with that
  array overwritten: at a position of the array the column there is replaced by its
  copy with \<^verbatim>\<open>isDragging\<close> true, and no other element changes. So whoever holds the array
  \<^verbatim>\<open>getColumns\<close> returned sees the write: if \<^verbatim>\<open>getColumns\<close> hands out an array of the
  caller's store, that array is no longer what it was. With different indices the
  function returns a new reference, and every array of \<open>h0\<close>, the one \<^verbatim>\<open>getColumns\<close>
  returned among them, is as it was.
\<close>

theorem generateColumnOrder_aliasing:
  assumes "getColumns h (eventView props) = (columnOrder, h0)"
    and "columnOrder < length h0"
  shows "generateColumnOrder_props getColumns h props (Some i) (Some i)
           = (columnOrder,
              h0[columnOrder := array_set (h0 ! columnOrder) i
                                  (withDragging (array_get (h0 ! columnOrder) i))])
       \<and> (0 \<le> i \<and> i < int (length (h0 ! columnOrder))
            \<and> length (h0 ! columnOrder) \<le> 4294967295 \<longrightarrow>
              (\<forall>c. h0 ! columnOrder ! nat i = Column c \<longrightarrow>
                 generateColumnOrder_props getColumns h props (Some i) (Some i)
                 = (columnOrder,
                    h0[columnOrder :=
                         (h0 ! columnOrder)[nat i := Column (c\<lparr>isDragging := Some True\<rparr>)]])
               \<and> (h0 = h \<and> isDragging c \<noteq> Some True \<longrightarrow>
                    snd (generateColumnOrder_props getColumns h props (Some i) (Some i))
                      ! columnOrder
                    \<noteq> h ! columnOrder)))
       \<and> (i \<noteq> d \<longrightarrow>
             fst (generateColumnOrder_props getColumns h props (Some i) (Some d)) = length h0
           \<and> fst (generateColumnOrder_props getColumns h props (Some i) (Some d))
               \<noteq> columnOrder
           \<and> take (length h0)
                (snd (generateColumnOrder_props getColumns h props (Some i) (Some d))) = h0
           \<and> snd (generateColumnOrder_props getColumns h props (Some i) (Some d))
                ! columnOrder
               = h0 ! columnOrder)"
proof -
  have unfold: "generateColumnOrder_props getColumns h props x y
      = generateColumnOrder h0 columnOrder x y" for x y
    using assms(1) by (simp add: generateColumnOrder_props_def)
  have eq: "generateColumnOrder h0 columnOrder (Some i) (Some i)
      = (columnOrder, h0[columnOrder := array_set (h0 ! columnOrder) i
                                (withDragging (array_get (h0 ! columnOrder) i))])"
    by (simp add: generateColumnOrder_def)
  have flag: "generateColumnOrder h0 columnOrder (Some i) (Some i)
      = (columnOrder,
         h0[columnOrder := (h0 ! columnOrder)[nat i := Column (c\<lparr>isDragging := Some True\<rparr>)]])"
    if "0 \<le> i" "i < int (length (h0 ! columnOrder))" "length (h0 ! columnOrder) \<le> 4294967295"
      "h0 ! columnOrder ! nat i = Column c" for c
    using that by (simp add: eq array_get_def array_set_def index_at_def)
  have seen: "snd (generateColumnOrder h0 columnOrder (Some i) (Some i)) ! columnOrder
      \<noteq> h ! columnOrder"
    if "0 \<le> i" "i < int (length (h0 ! columnOrder))" "length (h0 ! columnOrder) \<le> 4294967295"
      "h0 ! columnOrder ! nat i = Column c" "h0 = h" "isDragging c \<noteq> Some True" for c
  proof -
    have "snd (generateColumnOrder h0 columnOrder (Some i) (Some i)) ! columnOrder ! nat i
        = Column (c\<lparr>isDragging := Some True\<rparr>)"
      using that(1,2) assms(2) by (simp add: flag [OF that(1-4)])
    moreover have "h ! columnOrder ! nat i = Column c" using that(4,5) by simp
    moreover have "Column (c\<lparr>isDragging := Some True\<rparr>) \<noteq> Column c"
    proof
      assume "Column (c\<lparr>isDragging := Some True\<rparr>) = Column c"
      then have "isDragging (c\<lparr>isDragging := Some True\<rparr>) = isDragging c" by simp
      with that(6) show False by simp
    qed
    ultimately show ?thesis by metis
  qed
  have ne: "\<exists>xs. generateColumnOrder h0 columnOrder (Some i) (Some d) = (length h0, h0 @ [xs])"
    if "i \<noteq> d"
    using that by (simp add: generateColumnOrder_def alloc_def split: prod.split)
  have cp: "fst (generateColumnOrder h0 columnOrder (Some i) (Some d)) = length h0
           \<and> fst (generateColumnOrder h0 columnOrder (Some i) (Some d)) \<noteq> columnOrder
           \<and> take (length h0) (snd (generateColumnOrder h0 columnOrder (Some i) (Some d))) = h0
           \<and> snd (generateColumnOrder h0 columnOrder (Some i) (Some d)) ! columnOrder
               = h0 ! columnOrder" if "i \<noteq> d"
  proof -
    from ne [OF that] obtain xs where
      "generateColumnOrder h0 columnOrder (Some i) (Some d) = (length h0, h0 @ [xs])" ..
    then show ?thesis using assms(2) by (simp add: nth_append)
  qed
  show ?thesis
    unfolding unfold using eq flag seen cp by blast
qed

text \<open>
  A \<^verbatim>\<open>getColumns\<close> that hands out the caller's array, reference 0, of two columns.
  Dropped on itself, the second column is flagged inside that array, which is no longer
  what it was; dragged to the front, the preview is a second array and the first is
  untouched.
\<close>

theorem generateColumnOrder_aliasing_witness:
  "let a = Column
             \<lparr>key = ''id'', name = ''id'', TableColumn.aggregation = '''',
              TableColumn.field = ''id'', TableColumn.width = Some 300,
              eventViewField = \<lparr>Field.field = ''id'', Field.width = 300\<rparr>,
              type = ''string'', isDragging = None\<rparr>;
       b = Column
             \<lparr>key = ''count()'', name = ''count()'', TableColumn.aggregation = '''',
              TableColumn.field = ''count()'', TableColumn.width = Some 300,
              eventViewField = \<lparr>Field.field = ''count()'', Field.width = 300\<rparr>,
              type = ''string'', isDragging = None\<rparr>;
       b' = Column
             \<lparr>key = ''count()'', name = ''count()'', TableColumn.aggregation = '''',
              TableColumn.field = ''count()'', TableColumn.width = Some 300,
              eventViewField = \<lparr>Field.field = ''count()'', Field.width = 300\<rparr>,
              type = ''string'', isDragging = Some True\<rparr>;
       props = \<lparr>location = \<lparr>pathname = ''/organizations/acme/eventsv2/'', query = ()\<rparr>,
        organization = \<lparr>id' = ''42'', slug = ''acme''\<rparr>,
        isLoading = False, error = None,
        eventView = \<lparr>oid = 0,
                     fields' = [\<lparr>Field.field = ''id'', Field.width = 300\<rparr>,
                                \<lparr>Field.field = ''count()'', Field.width = 300\<rparr>]\<rparr>,
        tableData = None,
        tagKeys = None, title = ''Events''\<rparr> :: (unit, unit, int) TableViewProps
   in generateColumnOrder_props (\<lambda>h ev. (0, h)) [[a, b]] props (Some 1) (Some 1)
        = (0, [[a, b']])
    \<and> generateColumnOrder_props (\<lambda>h ev. (0, h)) [[a, b]] props (Some 1) (Some 0)
        = (1, [[a, b], [b', a]])
    \<and> [[a, b']] \<noteq> [[a, b]]"
proof -
  define a where "a = Column
             \<lparr>key = ''id'', name = ''id'', TableColumn.aggregation = '''',
              TableColumn.field = ''id'', TableColumn.width = Some 300,
              eventViewField = \<lparr>Field.field = ''id'', Field.width = 300\<rparr>,
              type = ''string'', isDragging = None\<rparr>"
  define c where "c =
             \<lparr>key = ''count()'', name = ''count()'', TableColumn.aggregation = '''',
              TableColumn.field = ''count()'', TableColumn.width = Some 300,
              eventViewField = \<lparr>Field.field = ''count()'', Field.width = 300\<rparr>,
              type = ''string'', isDragging = None\<rparr>"
  define props where "props = (\<lparr>location = \<lparr>pathname = ''/organizations/acme/eventsv2/'', query = ()\<rparr>,
        organization = \<lparr>id' = ''42'', slug = ''acme''\<rparr>,
        isLoading = False, error = None,
        eventView = \<lparr>oid = 0,
                     fields' = [\<lparr>Field.field = ''id'', Field.width = 300\<rparr>,
                                \<lparr>Field.field = ''count()'', Field.width = 300\<rparr>]\<rparr>,
        tableData = None,
        tagKeys = None, title = ''Events''\<rparr> :: (unit, unit, int) TableViewProps)"
  have 1: "generateColumnOrder_props (\<lambda>h ev. (0, h)) [[a, Column c]] props (Some 1) (Some 1)
      = (0, [[a, Column (c\<lparr>isDragging := Some True\<rparr>)]])"
    using generateColumnOrder_aliasing
      [where getColumns = "\<lambda>h ev. (0, h)" and h = "[[a, Column c]]" and props = props
         and columnOrder = 0 and ?h0.0 = "[[a, Column c]]" and i = 1 and d = 0]
    by (simp add: array_get_def array_set_def index_at_def)
  have 2: "generateColumnOrder_props (\<lambda>h ev. (0, h)) [[a, Column c]] props (Some 1) (Some 0)
      = (1, [[a, Column c], [Column (c\<lparr>isDragging := Some True\<rparr>), a]])"
    by (simp add: generateColumnOrder_props_def generateColumnOrder_def alloc_def splice_def
        array_get_def array_set_def index_at_def)
  show ?thesis
    using 1 2 by (simp add: a_def c_def props_def)
qed

text \<open>
  The claim as it is written has the caller's base array mutated. That depends on
  \<^verbatim>\<open>getColumns\<close>: one that builds a new array of columns from the fields of the view at
  every call gives the function an array nobody else holds. The caller's store, with the
  array of its own call as reference 0, is then unchanged by the equal indices 0 and
  0; the flagged column is written into the new array, reference 1.
\<close>

theorem generateColumnOrder_fresh_columns_counterexample:
  "generateColumnOrder_props
     (\<lambda>h ev.
        (length h,
         h @ [map (\<lambda>f. Column
                         \<lparr>key = Field.field f, name = Field.field f,
                          TableColumn.aggregation = '''', TableColumn.field = Field.field f,
                          TableColumn.width = Some (Field.width f), eventViewField = f,
                          type = ''string'', isDragging = None\<rparr>)
                (fields' ev)]))
     [[Column
             \<lparr>key = ''id'', name = ''id'', TableColumn.aggregation = '''',
              TableColumn.field = ''id'', TableColumn.width = Some 300,
              eventViewField = \<lparr>Field.field = ''id'', Field.width = 300\<rparr>,
              type = ''string'', isDragging = None\<rparr>]]
     (\<lparr>location = \<lparr>pathname = ''/organizations/acme/eventsv2/'', query = ()\<rparr>,
        organization = \<lparr>id' = ''42'', slug = ''acme''\<rparr>,
        isLoading = False, error = None,
        eventView = \<lparr>oid = 0, fields' = [\<lparr>Field.field = ''id'', Field.width = 300\<rparr>]\<rparr>,
        tableData = None,
        tagKeys = None, title = ''Events''\<rparr> :: (unit, unit, int) TableViewProps)
     (Some 0) (Some 0)
   = (1, [[Column
             \<lparr>key = ''id'', name = ''id'', TableColumn.aggregation = '''',
              TableColumn.field = ''id'', TableColumn.width = Some 300,
              eventViewField = \<lparr>Field.field = ''id'', Field.width = 300\<rparr>,
              type = ''string'', isDragging = None\<rparr>],
          [Column
             \<lparr>key = ''id'', name = ''id'', TableColumn.aggregation = '''',
              TableColumn.field = ''id'', TableColumn.width = Some 300,
              eventViewField = \<lparr>Field.field = ''id'', Field.width = 300\<rparr>,
              type = ''string'', isDragging = Some True\<rparr>]])
   \<and> take 1 [[Column
             \<lparr>key = ''id'', name = ''id'', TableColumn.aggregation = '''',
              TableColumn.field = ''id'', TableColumn.width = Some 300,
              eventViewField = \<lparr>Field.field = ''id'', Field.width = 300\<rparr>,
              type = ''string'', isDragging = None\<rparr>],
          [Column
             \<lparr>key = ''id'', name = ''id'', TableColumn.aggregation = '''',
              TableColumn.field = ''id'', TableColumn.width = Some 300,
              eventViewField = \<lparr>Field.field = ''id'', Field.width = 300\<rparr>,
              type = ''string'', isDragging = Some True\<rparr>]]
     = [[Column
             \<lparr>key = ''id'', name = ''id'', TableColumn.aggregation = '''',
              TableColumn.field = ''id'', TableColumn.width = Some 300,
              eventViewField = \<lparr>Field.field = ''id'', Field.width = 300\<rparr>,
              type = ''string'', isDragging = None\<rparr>]]"
  by (simp add: generateColumnOrder_props_def generateColumnOrder_def array_get_def
      array_set_def index_at_def)


section \<open>Properties of the header and body cells\<close>

text \<open>
  Claim C3. The alignment of a header cell is right when the type tag of the column
  is number, duration or integer, and left otherwise; except that for the tag never
  or * it is right exactly when the result metadata has the type integer or number
  for the aggregate alias of the column's field, and left otherwise, also when there
  is no table data or no metadata.
\<close>

theorem header_cell_alignment:
  "align (renderGridHeaderCell getAggregateAlias props column) =
     (if type column = ''never'' \<or> type column = ''*''
      then (case (case tableData props of None \<Rightarrow> None | Some td \<Rightarrow> meta td) of
              None \<Rightarrow> AlignLeft
            | Some m \<Rightarrow>
                if m (getAggregateAlias (Field.field (eventViewField column)))
                     \<in> {Some ''integer'', Some ''number''}
                then AlignRight else AlignLeft)
      else if type column \<in> {''number'', ''duration'', ''integer''}
           then AlignRight else AlignLeft)"
  by (auto simp: renderGridHeaderCell_def Let_def split: option.splits)

text \<open>
  The tags of the spec's examples: \<^verbatim>\<open>duration\<close> is right, \<^verbatim>\<open>string\<close> left, and \<^verbatim>\<open>never\<close>
  follows the metadata, left without any.
\<close>

lemma header_cell_alignment_examples:
  fixes props :: "('q, 'm, 'v) TableViewProps"
  shows "align (renderGridHeaderCell alias props (column\<lparr>type := ''duration''\<rparr>)) = AlignRight"
    and "align (renderGridHeaderCell alias props (column\<lparr>type := ''string''\<rparr>)) = AlignLeft"
    and "align (renderGridHeaderCell alias (props\<lparr>tableData := None\<rparr>)
                  (column\<lparr>type := ''never''\<rparr>)) = AlignLeft"
    and "align (renderGridHeaderCell (\<lambda>f. ''count_id'')
                  (props\<lparr>tableData :=
                     Some \<lparr>data = [], meta = Some [''count_id'' \<mapsto> ''integer'']\<rparr>\<rparr>)
                  (column\<lparr>type := ''never''\<rparr>)) = AlignRight"
    and "align (renderGridHeaderCell (\<lambda>f. ''last_seen'')
                  (props\<lparr>tableData :=
                     Some \<lparr>data = [], meta = Some [''last_seen'' \<mapsto> ''date'']\<rparr>\<rparr>)
                  (column\<lparr>type := ''*''\<rparr>)) = AlignLeft"
  by (simp_all add: renderGridHeaderCell_def)

text \<open>
  Claim C7. Without table data or without metadata a body cell is the raw value of
  the row at the column's key. With metadata \<open>m\<close>, and \<^verbatim>\<open>explodeField\<close> returning, the cell
  is the content of the field renderer for the column's key and \<open>m\<close>, applied to the row
  and \<^verbatim>\<open>{organization, location}\<close>; it is wrapped in a \<^verbatim>\<open>BaseLink\<close> to the current path
  with the query of the expanded view of the row when the exploded aggregation is
  \<^verbatim>\<open>count\<close>, and in a plain fragment otherwise: the cell is a link if and only if the
  aggregation is \<^verbatim>\<open>count\<close>.
\<close>

theorem body_cell_link_iff_count:
  "(tableData props = None \<longrightarrow>
      renderGridBodyCell explodeField getFieldRenderer getExpandedResults
        generateQueryStringObject props column dataRow = Inr (RawValue (dataRow (key column))))
   \<and> (\<forall>td. tableData props = Some td \<and> meta td = None \<longrightarrow>
      renderGridBodyCell explodeField getFieldRenderer getExpandedResults
        generateQueryStringObject props column dataRow = Inr (RawValue (dataRow (key column))))
   \<and> (\<forall>td m exploded.
        tableData props = Some td \<and> meta td = Some m
        \<and> explodeField (Some (eventViewField column)) = Inr exploded \<longrightarrow>
          renderGridBodyCell explodeField getFieldRenderer getExpandedResults
            generateQueryStringObject props column dataRow
          = Inr ((if ExplodedField.aggregation exploded = ''count''
                  then BaseLink \<lparr>pathname = pathname (location props),
                                 query = generateQueryStringObject
                                           (getExpandedResults (eventView props) dataRow)\<rparr>
                  else Fragment)
                   (FieldContent (getFieldRenderer (key column) m dataRow
                                    (organization props, location props))))
        \<and> ((\<exists>target content.
               renderGridBodyCell explodeField getFieldRenderer getExpandedResults
                 generateQueryStringObject props column dataRow
               = Inr (BaseLink target content))
             \<longleftrightarrow> ExplodedField.aggregation exploded = ''count''))"
  by (auto simp: bodyCellChildren_def renderGridBodyCell_def
      ExpandAggregateRow_def assert_def Let_def)

text \<open>
  A row of a view with the columns \<^verbatim>\<open>id\<close> and \<^verbatim>\<open>count()\<close>: the cell of \<^verbatim>\<open>count()\<close> is a
  link around the rendered content.
\<close>

theorem body_cell_link_iff_count_witness:
  "renderGridBodyCell
     (\<lambda>f. case f of
              None \<Rightarrow> Inl ''TypeError''
            | Some f \<Rightarrow>
                Inr (if Field.field f = ''count()''
                     then \<lparr>ExplodedField.aggregation = ''count'', ExplodedField.field = '''',
                           ExplodedField.width = Field.width f\<rparr>
                     else \<lparr>ExplodedField.aggregation = '''', ExplodedField.field = Field.field f,
                           ExplodedField.width = Field.width f\<rparr>))
     (\<lambda>k m row ctx. (k, row k))
     (\<lambda>ev row. ev\<lparr>oid := 2\<rparr>)
     (\<lambda>ev. oid ev)
     (\<lparr>location = \<lparr>pathname = ''/organizations/acme/eventsv2/'', query = ()\<rparr>,
        organization = \<lparr>id' = ''42'', slug = ''acme''\<rparr>,
        isLoading = False, error = None,
        eventView = \<lparr>oid = 0,
                     fields' = [\<lparr>Field.field = ''id'', Field.width = 300\<rparr>,
                                \<lparr>Field.field = ''count()'', Field.width = 300\<rparr>]\<rparr>,
        tableData = Some \<lparr>data = [], meta = Some [''count'' \<mapsto> ''integer'']\<rparr>,
        tagKeys = None, title = ''Events''\<rparr> :: (unit, unit, int) TableViewProps)
     \<lparr>key = ''count()'', name = ''count()'', TableColumn.aggregation = ''count'',
        TableColumn.field = '''', TableColumn.width = None,
        eventViewField = \<lparr>Field.field = ''count()'', Field.width = 300\<rparr>,
        type = ''never'', isDragging = None\<rparr>
     [''id'' \<mapsto> 7, ''count()'' \<mapsto> 3]
   = Inr (BaseLink \<lparr>pathname = ''/organizations/acme/eventsv2/'', query = 2\<rparr>
            (FieldContent (''count()'', Some 3)))"
  (is "?run = ?node")
proof -
  have "?run = ?node"
    by (simp add: renderGridBodyCell_def ExpandAggregateRow_def bodyCellChildren_def
        assert_def)
  with body_cell_link_iff_count
    [of "\<lparr>location = \<lparr>pathname = ''/organizations/acme/eventsv2/'', query = ()\<rparr>,
        organization = \<lparr>id' = ''42'', slug = ''acme''\<rparr>,
        isLoading = False, error = None,
        eventView = \<lparr>oid = 0,
                     fields' = [\<lparr>Field.field = ''id'', Field.width = 300\<rparr>,
                                \<lparr>Field.field = ''count()'', Field.width = 300\<rparr>]\<rparr>,
        tableData = Some \<lparr>data = [], meta = Some [''count'' \<mapsto> ''integer'']\<rparr>,
        tagKeys = None, title = ''Events''\<rparr> :: (unit, unit, int) TableViewProps"]
  show ?thesis by simp
qed

text \<open>
  Claim C9. The render function of a body cell returns the same content whether it
  is told the row will expand or not: both branches look the field renderer up with
  the column's key and the metadata and apply it to the row and
  \<^verbatim>\<open>{organization, location}\<close>. So the cell is the one of the single computation: render
  the content once, then wrap it in the link or not.
\<close>

theorem body_cell_branches_agree:
  "bodyCellChildren getFieldRenderer props td column dataRow True
     = bodyCellChildren getFieldRenderer props td column dataRow False
   \<and> renderGridBodyCell explodeField getFieldRenderer getExpandedResults
         generateQueryStringObject props column dataRow
     = renderGridBodyCell_single explodeField getFieldRenderer getExpandedResults
         generateQueryStringObject props column dataRow"
  by (simp add: bodyCellChildren_def renderGridBodyCell_def renderGridBodyCell_single_def
      ExpandAggregateRow_def assert_def Let_def split: option.split sum.split)


section \<open>Properties of the column handlers\<close>

text \<open>
  Claim C4. \<open>updateColumn\<close> asks \<^verbatim>\<open>withUpdatedColumn\<close> for the next view. If that is
  the view of the properties (the same object), the handler publishes it and sends no
  telemetry event. If it is another object and \<^verbatim>\<open>explodeField\<close> returns for the old and
  the new field at the index, the handler sends exactly one event, the update event,
  and then publishes the view; the \<^verbatim>\<open>changed\<close> list of the event has \<^verbatim>\<open>aggregate\<close> if and
  only if the two aggregations differ, \<^verbatim>\<open>field\<close> if and only if the two fields differ,
  \<^verbatim>\<open>width\<close> if and only if the two widths differ, each once and nothing else. If
  \<^verbatim>\<open>explodeField\<close> throws, so does the handler, before any call to a sink.
\<close>

theorem updateColumn_changed:
  "let payload =
         [(''aggregation'', JStr (TableColumn.aggregation nextColumn)),
          (''field'', JStr (TableColumn.field nextColumn)),
          (''width'', JNum (case TableColumn.width nextColumn of
                              None \<Rightarrow> COL_WIDTH_UNDEFINED
                            | Some w \<Rightarrow> if w \<noteq> 0 then w else COL_WIDTH_UNDEFINED))];
       tableMeta = (case tableData props of None \<Rightarrow> None | Some td \<Rightarrow> meta td);
       nextEventView = withUpdatedColumn (eventView props) columnIndex payload tableMeta;
       push = PushEventViewToLocation (location props) nextEventView
                (pickRelevantLocationQueryStrings (location props));
       run = updateColumn COL_WIDTH_UNDEFINED withUpdatedColumn explodeField
               pickRelevantLocationQueryStrings props columnIndex nextColumn;
       prev = explodeField (index_at (fields' (eventView props)) columnIndex);
       next = explodeField (index_at (fields' nextEventView) columnIndex)
   in (oid nextEventView = oid (eventView props) \<longrightarrow> run = Inr [push])
    \<and> (\<forall>prevField nextField.
          oid nextEventView \<noteq> oid (eventView props)
          \<and> prev = Inr prevField \<and> next = Inr nextField \<longrightarrow>
            (\<exists>changed.
               run = Inr [TrackAnalyticsEvent
                            ([(''eventKey'', JStr ''discover_v2.update_column''),
                              (''eventName'', JStr ''Discoverv2: A column was updated''),
                              (''updated_at_index'', JNum columnIndex),
                              (''changed'', JStrings changed),
                              (''organization_id'', parseInt (id' (organization props)))]
                             @ payload),
                          push]
             \<and> (''aggregate'' \<in> set changed \<longleftrightarrow>
                  ExplodedField.aggregation prevField \<noteq> ExplodedField.aggregation nextField)
             \<and> (''field'' \<in> set changed \<longleftrightarrow>
                  ExplodedField.field prevField \<noteq> ExplodedField.field nextField)
             \<and> (''width'' \<in> set changed \<longleftrightarrow>
                  ExplodedField.width prevField \<noteq> ExplodedField.width nextField)
             \<and> set changed \<subseteq> {''aggregate'', ''field'', ''width''}
             \<and> distinct changed))
    \<and> (\<forall>e. oid nextEventView \<noteq> oid (eventView props) \<and> prev = Inl e \<longrightarrow> run = Inl e)
    \<and> (\<forall>prevField e.
          oid nextEventView \<noteq> oid (eventView props)
          \<and> prev = Inr prevField \<and> next = Inl e \<longrightarrow> run = Inl e)"
  by (auto simp: updateColumn_def Let_def)

text \<open>
  A view with the columns \<^verbatim>\<open>id\<close> and \<^verbatim>\<open>count()\<close>. The first column is replaced by
  \<^verbatim>\<open>title\<close>, same width: the event lists \<^verbatim>\<open>field\<close> alone. The first column is resized
  from 300 to 150: the event lists \<^verbatim>\<open>width\<close> alone.
\<close>

theorem updateColumn_changed_witness:
  "updateColumn (- 1)
     (\<lambda>ev i payload m.
        ev\<lparr>oid := 1, fields' := [\<lparr>Field.field = ''title'', Field.width = 300\<rparr>,
                                  \<lparr>Field.field = ''count()'', Field.width = 300\<rparr>]\<rparr>)
     (\<lambda>f. case f of
              None \<Rightarrow> Inl ''TypeError''
            | Some f \<Rightarrow>
                Inr (if Field.field f = ''count()''
                     then \<lparr>ExplodedField.aggregation = ''count'', ExplodedField.field = '''',
                           ExplodedField.width = Field.width f\<rparr>
                     else \<lparr>ExplodedField.aggregation = '''', ExplodedField.field = Field.field f,
                           ExplodedField.width = Field.width f\<rparr>))
     (\<lambda>l. query l)
     (\<lparr>location = \<lparr>pathname = ''/organizations/acme/eventsv2/'', query = ()\<rparr>,
        organization = \<lparr>id' = ''42'', slug = ''acme''\<rparr>,
        isLoading = False, error = None,
        eventView = \<lparr>oid = 0,
                     fields' = [\<lparr>Field.field = ''id'', Field.width = 300\<rparr>,
                                \<lparr>Field.field = ''count()'', Field.width = 300\<rparr>]\<rparr>,
        tableData = None,
        tagKeys = None, title = ''Events''\<rparr> :: (unit, unit, int) TableViewProps)
     0
     \<lparr>key = ''title'', name = ''title'', TableColumn.aggregation = '''',
        TableColumn.field = ''title'', TableColumn.width = None,
        eventViewField = \<lparr>Field.field = ''title'', Field.width = 300\<rparr>,
        type = ''string'', isDragging = None\<rparr>
   = Inr [TrackAnalyticsEvent
            [(''eventKey'', JStr ''discover_v2.update_column''),
             (''eventName'', JStr ''Discoverv2: A column was updated''),
             (''updated_at_index'', JNum 0),
             (''changed'', JStrings [''field'']),
             (''organization_id'', JNum 42),
             (''aggregation'', JStr ''''),
             (''field'', JStr ''title''),
             (''width'', JNum (- 1))],
          PushEventViewToLocation
            \<lparr>pathname = ''/organizations/acme/eventsv2/'', query = ()\<rparr>
            \<lparr>oid = 1, fields' = [\<lparr>Field.field = ''title'', Field.width = 300\<rparr>,
                                  \<lparr>Field.field = ''count()'', Field.width = 300\<rparr>]\<rparr>
            ()]
   \<and> updateColumn (- 1)
     (\<lambda>ev i payload m.
        ev\<lparr>oid := 1, fields' := [\<lparr>Field.field = ''id'', Field.width = 150\<rparr>,
                                  \<lparr>Field.field = ''count()'', Field.width = 300\<rparr>]\<rparr>)
     (\<lambda>f. case f of
              None \<Rightarrow> Inl ''TypeError''
            | Some f \<Rightarrow>
                Inr (if Field.field f = ''count()''
                     then \<lparr>ExplodedField.aggregation = ''count'', ExplodedField.field = '''',
                           ExplodedField.width = Field.width f\<rparr>
                     else \<lparr>ExplodedField.aggregation = '''', ExplodedField.field = Field.field f,
                           ExplodedField.width = Field.width f\<rparr>))
     (\<lambda>l. query l)
     (\<lparr>location = \<lparr>pathname = ''/organizations/acme/eventsv2/'', query = ()\<rparr>,
        organization = \<lparr>id' = ''42'', slug = ''acme''\<rparr>,
        isLoading = False, error = None,
        eventView = \<lparr>oid = 0,
                     fields' = [\<lparr>Field.field = ''id'', Field.width = 300\<rparr>,
                                \<lparr>Field.field = ''count()'', Field.width = 300\<rparr>]\<rparr>,
        tableData = None,
        tagKeys = None, title = ''Events''\<rparr> :: (unit, unit, int) TableViewProps)
     0
     \<lparr>key = ''id'', name = ''id'', TableColumn.aggregation = '''',
        TableColumn.field = ''id'', TableColumn.width = Some 150,
        eventViewField = \<lparr>Field.field = ''id'', Field.width = 300\<rparr>,
        type = ''string'', isDragging = None\<rparr>
   = Inr [TrackAnalyticsEvent
            [(''eventKey'', JStr ''discover_v2.update_column''),
             (''eventName'', JStr ''Discoverv2: A column was updated''),
             (''updated_at_index'', JNum 0),
             (''changed'', JStrings [''width'']),
             (''organization_id'', JNum 42),
             (''aggregation'', JStr ''''),
             (''field'', JStr ''id''),
             (''width'', JNum 150)],
          PushEventViewToLocation
            \<lparr>pathname = ''/organizations/acme/eventsv2/'', query = ()\<rparr>
            \<lparr>oid = 1, fields' = [\<lparr>Field.field = ''id'', Field.width = 150\<rparr>,
                                  \<lparr>Field.field = ''count()'', Field.width = 300\<rparr>]\<rparr>
            ()]"
  using updateColumn_changed
    [of "\<lparr>key = ''title'', name = ''title'', TableColumn.aggregation = '''',
        TableColumn.field = ''title'', TableColumn.width = None,
        eventViewField = \<lparr>Field.field = ''title'', Field.width = 300\<rparr>,
        type = ''string'', isDragging = None\<rparr>"
        "- 1"
        "\<lparr>location = \<lparr>pathname = ''/organizations/acme/eventsv2/'', query = ()\<rparr>,
        organization = \<lparr>id' = ''42'', slug = ''acme''\<rparr>,
        isLoading = False, error = None,
        eventView = \<lparr>oid = 0,
                     fields' = [\<lparr>Field.field = ''id'', Field.width = 300\<rparr>,
                                \<lparr>Field.field = ''count()'', Field.width = 300\<rparr>]\<rparr>,
        tableData = None,
        tagKeys = None, title = ''Events''\<rparr> :: (unit, unit, int) TableViewProps"
        "(\<lambda>ev i payload m.
        ev\<lparr>oid := 1, fields' := [\<lparr>Field.field = ''title'', Field.width = 300\<rparr>,
                                  \<lparr>Field.field = ''count()'', Field.width = 300\<rparr>]\<rparr>)"
        0 "\<lambda>l. query l"
        "(\<lambda>f. case f of
              None \<Rightarrow> Inl ''TypeError''
            | Some f \<Rightarrow>
                Inr (if Field.field f = ''count()''
                     then \<lparr>ExplodedField.aggregation = ''count'', ExplodedField.field = '''',
                           ExplodedField.width = Field.width f\<rparr>
                     else \<lparr>ExplodedField.aggregation = '''', ExplodedField.field = Field.field f,
                           ExplodedField.width = Field.width f\<rparr>))"]
    updateColumn_changed
    [of "\<lparr>key = ''id'', name = ''id'', TableColumn.aggregation = '''',
        TableColumn.field = ''id'', TableColumn.width = Some 150,
        eventViewField = \<lparr>Field.field = ''id'', Field.width = 300\<rparr>,
        type = ''string'', isDragging = None\<rparr>"
        "- 1"
        "\<lparr>location = \<lparr>pathname = ''/organizations/acme/eventsv2/'', query = ()\<rparr>,
        organization = \<lparr>id' = ''42'', slug = ''acme''\<rparr>,
        isLoading = False, error = None,
        eventView = \<lparr>oid = 0,
                     fields' = [\<lparr>Field.field = ''id'', Field.width = 300\<rparr>,
                                \<lparr>Field.field = ''count()'', Field.width = 300\<rparr>]\<rparr>,
        tableData = None,
        tagKeys = None, title = ''Events''\<rparr> :: (unit, unit, int) TableViewProps"
        "(\<lambda>ev i payload m.
        ev\<lparr>oid := 1, fields' := [\<lparr>Field.field = ''id'', Field.width = 150\<rparr>,
                                  \<lparr>Field.field = ''count()'', Field.width = 300\<rparr>]\<rparr>)"
        0 "\<lambda>l. query l"
        "(\<lambda>f. case f of
              None \<Rightarrow> Inl ''TypeError''
            | Some f \<Rightarrow>
                Inr (if Field.field f = ''count()''
                     then \<lparr>ExplodedField.aggregation = ''count'', ExplodedField.field = '''',
                           ExplodedField.width = Field.width f\<rparr>
                     else \<lparr>ExplodedField.aggregation = '''', ExplodedField.field = Field.field f,
                           ExplodedField.width = Field.width f\<rparr>))"]
  by (simp add: updateColumn_def index_at_def parseInt_def roundToDouble_def isWhiteSpace_def
      isDigit_def)

text \<open>
  Claim C6. When a drag is done with either index absent, or with the destination
  equal to the source, \<open>onDragDone\<close> does nothing and does not fail: no view is
  published and no event is sent. With both indices present and different it is
  \<open>moveColumnCommit\<close> from the dragging to the destination index, and that, when
  \<^verbatim>\<open>explodeField\<close> returns, sends the move event with \<^verbatim>\<open>from_index\<close>, \<^verbatim>\<open>to_index\<close> and
  the aggregation and field of the moved column, and publishes the view
  \<^verbatim>\<open>withMovedColumn\<close> returned.
\<close>

theorem onDragDone_commits_iff:
  "onDragDone withMovedColumn explodeField pickRelevantLocationQueryStrings props
      None destinationColumnIndex = Inr []
   \<and> onDragDone withMovedColumn explodeField pickRelevantLocationQueryStrings props
      draggingColumnIndex None = Inr []
   \<and> onDragDone withMovedColumn explodeField pickRelevantLocationQueryStrings props
      (Some i) (Some i) = Inr []
   \<and> (i \<noteq> d \<longrightarrow>
        onDragDone withMovedColumn explodeField pickRelevantLocationQueryStrings props
          (Some i) (Some d)
        = moveColumnCommit withMovedColumn explodeField pickRelevantLocationQueryStrings
            props i d)
   \<and> (\<forall>prevField.
        explodeField (index_at (fields' (eventView props)) i) = Inr prevField \<longrightarrow>
          moveColumnCommit withMovedColumn explodeField pickRelevantLocationQueryStrings
            props i d
          = Inr [TrackAnalyticsEvent
                   [(''eventKey'', JStr ''discover_v2.move_column''),
                    (''eventName'', JStr ''Discoverv2: A column was moved''),
                    (''from_index'', JNum i),
                    (''to_index'', JNum d),
                    (''organization_id'', parseInt (id' (organization props))),
                    (''aggregation'', JStr (ExplodedField.aggregation prevField)),
                    (''field'', JStr (ExplodedField.field prevField))],
                 PushEventViewToLocation (location props)
                   (withMovedColumn (eventView props) i d)
                   (pickRelevantLocationQueryStrings (location props))])
   \<and> (\<forall>e. explodeField (index_at (fields' (eventView props)) i) = Inl e \<longrightarrow>
          moveColumnCommit withMovedColumn explodeField pickRelevantLocationQueryStrings
            props i d = Inl e)"
  by (simp add: onDragDone_def moveColumnCommit_def split: option.split)

text \<open>
  The scenario of the spec: the columns \<^verbatim>\<open>id\<close> and \<^verbatim>\<open>count()\<close>, a drag from index 0 to
  index 1. The move event has \<^verbatim>\<open>from_index\<close> 0 and \<^verbatim>\<open>to_index\<close> 1, and the view published
  is the one with the columns \<^verbatim>\<open>count()\<close> and \<^verbatim>\<open>id\<close>.
\<close>

theorem onDragDone_commits_iff_witness:
  "onDragDone
     (\<lambda>ev from to.
        ev\<lparr>oid := 1, fields' := [\<lparr>Field.field = ''count()'', Field.width = 300\<rparr>,
                                  \<lparr>Field.field = ''id'', Field.width = 300\<rparr>]\<rparr>)
     (\<lambda>f. case f of
              None \<Rightarrow> Inl ''TypeError''
            | Some f \<Rightarrow>
                Inr (if Field.field f = ''count()''
                     then \<lparr>ExplodedField.aggregation = ''count'', ExplodedField.field = '''',
                           ExplodedField.width = Field.width f\<rparr>
                     else \<lparr>ExplodedField.aggregation = '''', ExplodedField.field = Field.field f,
                           ExplodedField.width = Field.width f\<rparr>))
     (\<lambda>l. query l)
     (\<lparr>location = \<lparr>pathname = ''/organizations/acme/eventsv2/'', query = ()\<rparr>,
        organization = \<lparr>id' = ''42'', slug = ''acme''\<rparr>,
        isLoading = False, error = None,
        eventView = \<lparr>oid = 0,
                     fields' = [\<lparr>Field.field = ''id'', Field.width = 300\<rparr>,
                                \<lparr>Field.field = ''count()'', Field.width = 300\<rparr>]\<rparr>,
        tableData = None,
        tagKeys = None, title = ''Events''\<rparr> :: (unit, unit, int) TableViewProps)
     (Some 0) (Some 1)
   = Inr [TrackAnalyticsEvent
            [(''eventKey'', JStr ''discover_v2.move_column''),
             (''eventName'', JStr ''Discoverv2: A column was moved''),
             (''from_index'', JNum 0),
             (''to_index'', JNum 1),
             (''organization_id'', JNum 42),
             (''aggregation'', JStr ''''),
             (''field'', JStr ''id'')],
          PushEventViewToLocation
            \<lparr>pathname = ''/organizations/acme/eventsv2/'', query = ()\<rparr>
            \<lparr>oid = 1, fields' = [\<lparr>Field.field = ''count()'', Field.width = 300\<rparr>,
                                  \<lparr>Field.field = ''id'', Field.width = 300\<rparr>]\<rparr>
            ()]"
  using onDragDone_commits_iff
    [of "(\<lambda>ev from to.
        ev\<lparr>oid := 1, fields' := [\<lparr>Field.field = ''count()'', Field.width = 300\<rparr>,
                                  \<lparr>Field.field = ''id'', Field.width = 300\<rparr>]\<rparr>)"
        "(\<lambda>f. case f of
              None \<Rightarrow> Inl ''TypeError''
            | Some f \<Rightarrow>
                Inr (if Field.field f = ''count()''
                     then \<lparr>ExplodedField.aggregation = ''count'', ExplodedField.field = '''',
                           ExplodedField.width = Field.width f\<rparr>
                     else \<lparr>ExplodedField.aggregation = '''', ExplodedField.field = Field.field f,
                           ExplodedField.width = Field.width f\<rparr>))"
        "\<lambda>l. query l"
        "\<lparr>location = \<lparr>pathname = ''/organizations/acme/eventsv2/'', query = ()\<rparr>,
        organization = \<lparr>id' = ''42'', slug = ''acme''\<rparr>,
        isLoading = False, error = None,
        eventView = \<lparr>oid = 0,
                     fields' = [\<lparr>Field.field = ''id'', Field.width = 300\<rparr>,
                                \<lparr>Field.field = ''count()'', Field.width = 300\<rparr>]\<rparr>,
        tableData = None,
        tagKeys = None, title = ''Events''\<rparr> :: (unit, unit, int) TableViewProps"
        None None 0 1]
  by (simp add: index_at_def parseInt_def roundToDouble_def isWhiteSpace_def
      isDigit_def)

section \<open>Properties of the slider labels\<close>

subsection \<open>The decimal digits of a number\<close>

text \<open>
  \<open>digits\<close> writes a number the one canonical way: digits only, at least one, no
  leading zero but for 0 itself, and with the value of the number.
\<close>

lemma digit_char:
  assumes "k < 10"
  shows "of_char (''0123456789'' ! k) = 48 + k"
    and "isDigit (''0123456789'' ! k)"
    and "\<not> isWhiteSpace (''0123456789'' ! k)"
    and "''0123456789'' ! k \<noteq> CHR ''-''"
    and "''0123456789'' ! k \<noteq> CHR ''+''"
    and "0 < k \<Longrightarrow> ''0123456789'' ! k \<noteq> CHR ''0''"
proof -
  from assms have "k \<in> {0, 1, 2, 3, 4, 5, 6, 7, 8, 9}" by auto
  then show "of_char (''0123456789'' ! k) = 48 + k"
    and "isDigit (''0123456789'' ! k)"
    and "\<not> isWhiteSpace (''0123456789'' ! k)"
    and "''0123456789'' ! k \<noteq> CHR ''-''"
    and "''0123456789'' ! k \<noteq> CHR ''+''"
    and "0 < k \<Longrightarrow> ''0123456789'' ! k \<noteq> CHR ''0''"
    by (auto simp: isDigit_def isWhiteSpace_def)
qed

lemma digits_nonempty: "digits n \<noteq> []"
  by (subst digits.simps) simp

lemma digits_all_digits: "set (digits n) \<subseteq> set ''0123456789''"
proof (induction n rule: digits.induct)
  case (1 n)
  show ?case
  proof (cases "n < 10")
    case True
    then have "''0123456789'' ! n \<in> set ''0123456789''" by (intro nth_mem) simp
    with True show ?thesis by (subst digits.simps) simp
  next
    case False
    have "''0123456789'' ! (n mod 10) \<in> set ''0123456789''" by (intro nth_mem) simp
    with False 1 show ?thesis by (subst digits.simps) simp
  qed
qed

lemma digits_value:
  "foldl (\<lambda>a c. 10 * a + (of_char c - 48)) (0::nat) (digits n) = n"
proof (induction n rule: digits.induct)
  case (1 n)
  show ?case
  proof (cases "n < 10")
    case True
    then show ?thesis by (subst digits.simps) (simp add: digit_char)
  next
    case False
    with 1 show ?thesis by (subst digits.simps) (simp add: digit_char)
  qed
qed

lemma digits_no_leading_zero: "0 < n \<Longrightarrow> hd (digits n) \<noteq> CHR ''0''"
proof (induction n rule: digits.induct)
  case (1 n)
  show ?case
  proof (cases "n < 10")
    case True
    then have "hd (digits n) = ''0123456789'' ! n" by (subst digits.simps) simp
    with digit_char(6) [OF True 1(2)] show ?thesis by (simp only: not_False_eq_True)
  next
    case False
    then have "0 < n div 10" by simp
    with False 1(1) show ?thesis
      by (subst digits.simps) (simp add: digits_nonempty)
  qed
qed

lemma digits_zero: "digits 0 = ''0''"
  by (simp add: digits.simps)

lemma isDigit_not_sign:
  assumes "isDigit c"
  shows "\<not> isWhiteSpace c" and "c \<noteq> CHR ''-''" and "c \<noteq> CHR ''+''"
  using assms by (auto simp: isDigit_def isWhiteSpace_def)

lemma roundToDouble_small: "n < 9007199254740992 \<Longrightarrow> roundToDouble n = Some n"
  by (simp add: roundToDouble_def)

lemma digits_isDigit: "\<forall>x \<in> set (digits n). isDigit x"
  unfolding isDigit_def using digits_all_digits [of n] by blast

text \<open>
  Below \<open>2 ^ 53\<close>, reading the digits of a number back gives the number, with or
  without the sign.
\<close>

lemma parseInt_digits:
  assumes "n < 9007199254740992"
  shows "parseInt (digits n) = JNum (int n)"
    and "parseInt (CHR ''-'' # digits n) = JNum (- int n)"
proof -
  obtain c cs where cs: "digits n = c # cs"
    using digits_nonempty [of n] by (cases "digits n") auto
  have tw: "takeWhile isDigit (c # cs) = c # cs"
    using digits_isDigit [of n] by (simp only: cs takeWhile_eq_all_conv)
  have c: "\<not> isWhiteSpace c" "c \<noteq> CHR ''-''" "c \<noteq> CHR ''+''"
    using digits_isDigit [of n] isDigit_not_sign [of c] by (simp_all add: cs)
  have r: "roundToDouble n = Some n" using assms by (rule roundToDouble_small)
  have v: "foldl (\<lambda>a c. 10 * a + (of_char c - 48)) (0::nat) (c # cs) = n"
    using digits_value [of n] by (simp only: cs)
  have ne: "(c # cs = []) = False" by simp
  have sp: "\<not> isWhiteSpace CHR ''-''" by (simp add: isWhiteSpace_def)
  show "parseInt (digits n) = JNum (int n)"
    unfolding parseInt_def cs Let_def
    by (simp only: dropWhile.simps c tw v r ne list.case if_False option.case
        simp_thms)
  show "parseInt (CHR ''-'' # digits n) = JNum (- int n)"
    unfolding parseInt_def cs Let_def
    by (simp only: dropWhile.simps sp tw v r ne list.case if_False if_True option.case
        simp_thms)
qed

subsection \<open>The labels\<close>

lemma tct_subst_number:
  "tct_subst ''[number] per hour'' [(''number'', s)] = s @ '' per hour''"
  by simp

text \<open>
  Claim C8. The label of the account limit is the message \<^verbatim>\<open>No Limit\<close> for a value
  that is unset or 0, and otherwise the message \<^verbatim>\<open>[number] per hour\<close> with the value
  in the locale's number format for \<^verbatim>\<open>number\<close>: in English, the value with thousands
  separators followed by \<^verbatim>\<open> per hour\<close>, spelled out for every value of the step table.
  The label of the per-project limit is, for
  exactly 100, the span with the markup \<^verbatim>\<open>No Limit &mdash; 100%\<close> (the dash is written
  as its HTML entity), and otherwise the value followed by \<^verbatim>\<open>%\<close>: spelled out for the
  stops of the slider below 100, and for every integer a number holds exactly the
  sign, then the canonical decimal digits of the value (which \<^verbatim>\<open>parseInt\<close> reads back
  as the value), then \<^verbatim>\<open>%\<close>.
\<close>

theorem rate_limit_labels:
  "accountRateLimit_formatLabel t (tct :: string \<Rightarrow> (string \<times> string) list \<Rightarrow> 'n)
       toLocaleString None = Text (t ''No Limit'')
   \<and> accountRateLimit_formatLabel t tct toLocaleString (Some 0) = Text (t ''No Limit'')
   \<and> (v \<noteq> 0 \<longrightarrow>
        accountRateLimit_formatLabel t tct toLocaleString (Some v)
        = Node (tct ''[number] per hour'' [(''number'', toLocaleString v)]))
   \<and> accountRateLimit_formatLabel t_untranslated tct_subst toLocaleString_en None
       = Text ''No Limit''
   \<and> accountRateLimit_formatLabel t_untranslated tct_subst toLocaleString_en (Some 0)
       = Text ''No Limit''
   \<and> (v \<noteq> 0 \<longrightarrow>
        accountRateLimit_formatLabel t_untranslated tct_subst toLocaleString_en (Some v)
        = Node (toLocaleString_en v @ '' per hour''))
   \<and> map (\<lambda>x. accountRateLimit_formatLabel t_untranslated tct_subst toLocaleString_en
                 (Some x))
         ACCOUNT_RATE_LIMIT_VALUES
       = Text ''No Limit''
         # map (\<lambda>s. Node (s @ '' per hour''))
             [''1,000'', ''2,000'', ''3,000'', ''4,000'', ''5,000'', ''6,000'', ''7,000'',
              ''8,000'', ''9,000'', ''10,000'', ''20,000'', ''30,000'', ''40,000'',
              ''50,000'', ''60,000'', ''70,000'', ''80,000'', ''90,000'', ''100,000'',
              ''200,000'', ''300,000'', ''400,000'', ''500,000'', ''600,000'', ''700,000'',
              ''800,000'', ''900,000'', ''1,000,000'']
   \<and> (projectRateLimit_formatLabel t (Some 100) :: 'n label)
       = SpanInnerHTML (t ''No Limit'' @ '' &mdash; 100%'')
   \<and> (projectRateLimit_formatLabel t_untranslated (Some 100) :: 'n label)
       = SpanInnerHTML ''No Limit &mdash; 100%''
   \<and> map (\<lambda>x. projectRateLimit_formatLabel t (Some x) :: 'n label)
         [50, 55, 60, 65, 70, 75, 80, 85, 90, 95]
       = map Text [''50%'', ''55%'', ''60%'', ''65%'', ''70%'', ''75%'', ''80%'', ''85%'',
                   ''90%'', ''95%'']
   \<and> (w \<noteq> 100 \<and> \<bar>w\<bar> < 9007199254740992 \<longrightarrow>
        (\<exists>ds. (projectRateLimit_formatLabel t (Some w) :: 'n label)
                = Text ((if w < 0 then ''-'' else []) @ ds @ ''%'')
              \<and> ds \<noteq> [] \<and> set ds \<subseteq> set ''0123456789''
              \<and> (if w = 0 then ds = ''0'' else hd ds \<noteq> CHR ''0'')
              \<and> parseInt ((if w < 0 then ''-'' else []) @ ds) = JNum w))
   \<and> (projectRateLimit_formatLabel t None :: 'n label) = Text ''undefined%''"
proof -
  have account:
    "accountRateLimit_formatLabel t tct toLocaleString None = Text (t ''No Limit'')"
    "accountRateLimit_formatLabel t tct toLocaleString (Some 0) = Text (t ''No Limit'')"
    "v \<noteq> 0 \<longrightarrow>
        accountRateLimit_formatLabel t tct toLocaleString (Some v)
        = Node (tct ''[number] per hour'' [(''number'', toLocaleString v)])"
    "accountRateLimit_formatLabel t_untranslated tct_subst toLocaleString_en None
       = Text ''No Limit''"
    "accountRateLimit_formatLabel t_untranslated tct_subst toLocaleString_en (Some 0)
       = Text ''No Limit''"
    "v \<noteq> 0 \<longrightarrow>
        accountRateLimit_formatLabel t_untranslated tct_subst toLocaleString_en (Some v)
        = Node (toLocaleString_en v @ '' per hour'')"
    by (simp_all add: accountRateLimit_formatLabel_def falsy_def t_untranslated_def
        tct_subst_number)
  have steps:
    "map (\<lambda>x. accountRateLimit_formatLabel t_untranslated tct_subst toLocaleString_en
                 (Some x))
         ACCOUNT_RATE_LIMIT_VALUES
       = Text ''No Limit''
         # map (\<lambda>s. Node (s @ '' per hour''))
             [''1,000'', ''2,000'', ''3,000'', ''4,000'', ''5,000'', ''6,000'', ''7,000'',
              ''8,000'', ''9,000'', ''10,000'', ''20,000'', ''30,000'', ''40,000'',
              ''50,000'', ''60,000'', ''70,000'', ''80,000'', ''90,000'', ''100,000'',
              ''200,000'', ''300,000'', ''400,000'', ''500,000'', ''600,000'', ''700,000'',
              ''800,000'', ''900,000'', ''1,000,000'']"
    unfolding ACCOUNT_RATE_LIMIT_VALUES_def getRateLimitValues_eq
    by (simp add: accountRateLimit_formatLabel_def falsy_def t_untranslated_def
        tct_subst_number toLocaleString_en_def digits.simps group3.simps)
  have hundred:
    "(projectRateLimit_formatLabel t (Some 100) :: 'n label)
       = SpanInnerHTML (t ''No Limit'' @ '' &mdash; 100%'')"
    "(projectRateLimit_formatLabel t_untranslated (Some 100) :: 'n label)
       = SpanInnerHTML ''No Limit &mdash; 100%''"
    "(projectRateLimit_formatLabel t None :: 'n label) = Text ''undefined%''"
    by (simp_all add: projectRateLimit_formatLabel_def t_untranslated_def String_of_def)
  have stops:
    "map (\<lambda>x. projectRateLimit_formatLabel t (Some x) :: 'n label)
         [50, 55, 60, 65, 70, 75, 80, 85, 90, 95]
       = map Text [''50%'', ''55%'', ''60%'', ''65%'', ''70%'', ''75%'', ''80%'', ''85%'',
                   ''90%'', ''95%'']"
    by (simp add: projectRateLimit_formatLabel_def String_of_def digits.simps)
  have pinned:
    "\<exists>ds. (projectRateLimit_formatLabel t (Some w) :: 'n label)
                = Text ((if w < 0 then ''-'' else []) @ ds @ ''%'')
              \<and> ds \<noteq> [] \<and> set ds \<subseteq> set ''0123456789''
              \<and> (if w = 0 then ds = ''0'' else hd ds \<noteq> CHR ''0'')
              \<and> parseInt ((if w < 0 then ''-'' else []) @ ds) = JNum w"
    if w: "w \<noteq> 100" "\<bar>w\<bar> < 9007199254740992"
  proof -
    define n where "n = nat \<bar>w\<bar>"
    have n: "n < 9007199254740992" using w(2) by (simp add: n_def)
    have lab: "(projectRateLimit_formatLabel t (Some w) :: 'n label)
                = Text ((if w < 0 then ''-'' else []) @ digits n @ ''%'')"
      using w(1) by (simp add: projectRateLimit_formatLabel_def String_of_def n_def)
    have z: "if w = 0 then digits n = ''0'' else hd (digits n) \<noteq> CHR ''0''"
      using digits_no_leading_zero [of n] by (simp add: n_def digits_zero)
    have p: "parseInt ((if w < 0 then ''-'' else []) @ digits n) = JNum w"
      using parseInt_digits [OF n] by (cases "w < 0") (simp_all add: n_def)
    show ?thesis
      using lab digits_nonempty [of n] digits_all_digits [of n] z p by blast
  qed
  show ?thesis
    using account steps hundred stops pinned by (intro conjI impI) blast+
qed

text \<open>
  The account limits 1000000 and 5000 and the per-project limits 75 and 50 in
  English.
\<close>

theorem rate_limit_labels_witness:
  "accountRateLimit_formatLabel t_untranslated tct_subst toLocaleString_en (Some 1000000)
     = Node ''1,000,000 per hour''
   \<and> accountRateLimit_formatLabel t_untranslated tct_subst toLocaleString_en (Some 5000)
     = Node ''5,000 per hour''
   \<and> (projectRateLimit_formatLabel t_untranslated (Some 75) :: string label) = Text ''75%''
   \<and> (projectRateLimit_formatLabel t_untranslated (Some 50) :: string label) = Text ''50%''
   \<and> parseInt ''75'' = JNum 75"
proof -
  have 1: "toLocaleString_en 1000000 = ''1,000,000''"
    by (simp add: toLocaleString_en_def digits.simps group3.simps)
  have 2: "toLocaleString_en 5000 = ''5,000''"
    by (simp add: toLocaleString_en_def digits.simps group3.simps)
  have 3: "parseInt ''75'' = JNum 75"
    by (simp add: parseInt_def roundToDouble_def isWhiteSpace_def isDigit_def)
  show ?thesis
    using rate_limit_labels [of t_untranslated tct_subst toLocaleString_en 1000000 75]
      rate_limit_labels [of t_untranslated tct_subst toLocaleString_en 5000 50]
    by (simp add: 1 2 3)
qed


end
